theory Spec2Isabelle
  imports Main "HOL-Library.Monad_Syntax"
begin

section \<open>JavaScript values as the server sees them\<close>

text \<open>
  The server handles JSON received from the upstream provider without any schema, so
  the model keeps the values untyped. \<open>Undefined\<close> is the value of a missing property,
  \<open>Null\<close> is JSON's null. Numbers are the integer-valued ones (ids, goals, minutes).
  An object is its list of properties; the first binding of a name is the one read.
\<close>

datatype jsval =
    Undefined
  | Null
  | Bool bool
  | Num int
  | Str string
  | Arr "jsval list"
  | Obj "(string \<times> jsval) list"

text \<open>Truthiness, as used by \<open>!x\<close> and \<open>x || y\<close>.\<close>

fun truthy :: "jsval \<Rightarrow> bool" where
  "truthy Undefined = False"
| "truthy Null = False"
| "truthy (Bool b) = b"
| "truthy (Num n) = (n \<noteq> 0)"
| "truthy (Str s) = (s \<noteq> [])"
| "truthy (Arr xs) = True"
| "truthy (Obj kvs) = True"

text \<open>\<open>a || b\<close> where \<open>b\<close> is a literal.\<close>

definition js_or :: "jsval \<Rightarrow> jsval \<Rightarrow> jsval" where
  "js_or a b = (if truthy a then a else b)"

fun nullish :: "jsval \<Rightarrow> bool" where
  "nullish Undefined = True"
| "nullish Null = True"
| "nullish v = False"

text \<open>
  \<open>a === b\<close>. Arrays and objects are compared by reference; every comparison of the
  server has a string literal or a value from another place of the parsed JSON on one
  side, so two arrays or objects compared there are never the same reference.
\<close>

fun strict_eq :: "jsval \<Rightarrow> jsval \<Rightarrow> bool" where
  "strict_eq Undefined Undefined = True"
| "strict_eq Null Null = True"
| "strict_eq (Bool a) (Bool b) = (a = b)"
| "strict_eq (Num a) (Num b) = (a = b)"
| "strict_eq (Str a) (Str b) = (a = b)"
| "strict_eq a b = False"

text \<open>
  \<open>v.k\<close>: reading a property of undefined or null throws a TypeError, which is the
  result \<open>None\<close> throughout. The names the server reads (participants, scores, meta,
  location, id, participant_id, goals, round, name, state, periods, type, minutes,
  league_id, starting_at, image_path, data, message) are not defined on the prototypes
  of arrays, strings, numbers or booleans, so they read as undefined there.
\<close>

fun get_prop :: "jsval \<Rightarrow> string \<Rightarrow> jsval option" where
  "get_prop Undefined k = None"
| "get_prop Null k = None"
| "get_prop (Obj kvs) k = Some (case map_of kvs k of None \<Rightarrow> Undefined | Some v \<Rightarrow> v)"
| "get_prop v k = Some Undefined"

text \<open>\<open>v?.k\<close>: undefined when \<open>v\<close> is undefined or null, never a TypeError.\<close>

fun opt_prop :: "jsval \<Rightarrow> string \<Rightarrow> jsval" where
  "opt_prop (Obj kvs) k = (case map_of kvs k of None \<Rightarrow> Undefined | Some v \<Rightarrow> v)"
| "opt_prop v k = Undefined"

text \<open>
  \<open>xs.find(cb)\<close> on the elements of an array: the first element the callback accepts,
  undefined when there is none; a callback that throws ends the search with its error.
\<close>

fun array_find :: "(jsval \<Rightarrow> bool option) \<Rightarrow> jsval list \<Rightarrow> jsval option" where
  "array_find cb [] = Some Undefined"
| "array_find cb (x # xs) =
     (case cb x of
        None \<Rightarrow> None
      | Some b \<Rightarrow> if b then Some x else array_find cb xs)"

text \<open>
  \<open>v.find(cb)\<close>: only an array has the method; on anything else the call throws
  (reading \<open>find\<close> of undefined or null, or calling the undefined \<open>find\<close> property).
\<close>

fun find_method :: "jsval \<Rightarrow> (jsval \<Rightarrow> bool option) \<Rightarrow> jsval option" where
  "find_method (Arr xs) cb = array_find cb xs"
| "find_method v cb = None"

text \<open>\<open>v?.find(cb)\<close>.\<close>

definition opt_find_method :: "jsval \<Rightarrow> (jsval \<Rightarrow> bool option) \<Rightarrow> jsval option" where
  "opt_find_method v cb = (if nullish v then Some Undefined else find_method v cb)"

text \<open>\<open>xs.map(cb)\<close> on the elements of an array, with a callback that may throw.\<close>

fun array_map :: "(jsval \<Rightarrow> jsval option) \<Rightarrow> jsval list \<Rightarrow> jsval list option" where
  "array_map cb [] = Some []"
| "array_map cb (x # xs) =
     (case cb x of
        None \<Rightarrow> None
      | Some y \<Rightarrow> (case array_map cb xs of None \<Rightarrow> None | Some ys \<Rightarrow> Some (y # ys)))"

fun map_method :: "jsval \<Rightarrow> (jsval \<Rightarrow> jsval option) \<Rightarrow> jsval option" where
  "map_method (Arr xs) cb = map_option Arr (array_map cb xs)"
| "map_method v cb = None"

text \<open>
  \<open>s.toUpperCase()\<close> on the characters a to z; the status strings of the provider are
  ASCII. Other characters are left as they are.
\<close>

definition upper_char :: "char \<Rightarrow> char" where
  "upper_char c =
     (let n = (of_char c :: nat) in if 97 \<le> n \<and> n \<le> 122 then char_of (n - 32) else c)"

definition toUpperCase :: "string \<Rightarrow> string" where
  "toUpperCase s = map upper_char s"

text \<open>\<open>v.toUpperCase()\<close>: only a string has the method.\<close>

fun toUpperCase_method :: "jsval \<Rightarrow> jsval option" where
  "toUpperCase_method (Str s) = Some (Str (toUpperCase s))"
| "toUpperCase_method v = None"

text \<open>\<open>v?.toUpperCase()\<close>.\<close>

definition opt_toUpperCase_method :: "jsval \<Rightarrow> jsval option" where
  "opt_toUpperCase_method v = (if nullish v then Some Undefined else toUpperCase_method v)"


section \<open>Shaping one record\<close>

text \<open>The callback \<open>p => p.meta.location === loc\<close> of the participant searches.\<close>

definition at_location :: "string \<Rightarrow> jsval \<Rightarrow> bool option" where
  "at_location loc p = do {
     meta \<leftarrow> get_prop p ''meta'';
     location \<leftarrow> get_prop meta ''location'';
     Some (strict_eq location (Str loc))
   }"

text \<open>The callback \<open>p => p.type === '2hg'\<close> of the period search.\<close>

definition is_2hg :: "jsval \<Rightarrow> bool option" where
  "is_2hg p = do {
     type \<leftarrow> get_prop p ''type'';
     Some (strict_eq type (Str ''2hg''))
   }"

subsection \<open>With optional chaining (part_000, lines 124 to 146 and 152 to 169)\<close>

text \<open>The callback \<open>s => s.participant_id === team?.id\<close> of the score searches.\<close>

definition score_of :: "jsval \<Rightarrow> jsval \<Rightarrow> bool option" where
  "score_of team s = do {
     participant_id \<leftarrow> get_prop s ''participant_id'';
     Some (strict_eq participant_id (opt_prop team ''id''))
   }"

definition shape_match :: "jsval \<Rightarrow> jsval option" where
  "shape_match match = do {
     participants \<leftarrow> get_prop match ''participants'';
     localTeam \<leftarrow> find_method participants (at_location ''home'');
     visitorTeam \<leftarrow> find_method participants (at_location ''away'');
     scores \<leftarrow> get_prop match ''scores'';
     localTeamScore \<leftarrow> find_method scores (score_of localTeam);
     visitorTeamScore \<leftarrow> find_method scores (score_of visitorTeam);
     id \<leftarrow> get_prop match ''id'';
     league_id \<leftarrow> get_prop match ''league_id'';
     round \<leftarrow> get_prop match ''round'';
     starting_at \<leftarrow> get_prop match ''starting_at'';
     state \<leftarrow> get_prop match ''state'';
     upper \<leftarrow> opt_toUpperCase_method (opt_prop state ''state'');
     periods \<leftarrow> get_prop match ''periods'';
     period \<leftarrow> opt_find_method periods is_2hg;
     Some (Obj [
       (''id'', id),
       (''league_id'', league_id),
       (''round'', js_or (opt_prop round ''name'') (Str ''N/A'')),
       (''localteam_id'', opt_prop localTeam ''id''),
       (''visitorteam_id'', opt_prop visitorTeam ''id''),
       (''starting_at'', starting_at),
       (''status'', js_or upper (Str ''N/A'')),
       (''minute'', opt_prop period ''minutes''),
       (''live'', Bool (strict_eq (opt_prop state ''state'') (Str ''live''))),
       (''scores'', Arr [
          Obj [(''team_id'', opt_prop localTeam ''id''),
               (''score'', js_or (opt_prop localTeamScore ''goals'') (Num 0))],
          Obj [(''team_id'', opt_prop visitorTeam ''id''),
               (''score'', js_or (opt_prop visitorTeamScore ''goals'') (Num 0))]]),
       (''participants'', participants)])
   }"

definition shape_fixture :: "jsval \<Rightarrow> jsval option" where
  "shape_fixture fixture = do {
     participants \<leftarrow> get_prop fixture ''participants'';
     localTeam \<leftarrow> find_method participants (at_location ''home'');
     visitorTeam \<leftarrow> find_method participants (at_location ''away'');
     id \<leftarrow> get_prop fixture ''id'';
     league_id \<leftarrow> get_prop fixture ''league_id'';
     round \<leftarrow> get_prop fixture ''round'';
     starting_at \<leftarrow> get_prop fixture ''starting_at'';
     state \<leftarrow> get_prop fixture ''state'';
     upper \<leftarrow> opt_toUpperCase_method (opt_prop state ''state'');
     Some (Obj [
       (''id'', id),
       (''league_id'', league_id),
       (''round'', round),
       (''starting_at'', starting_at),
       (''status'', js_or upper (Str ''N/A'')),
       (''live'', Bool False),
       (''participants'', participants),
       (''scores'', Arr [
          Obj [(''participant_id'', opt_prop localTeam ''id''), (''goals'', Num 0)],
          Obj [(''participant_id'', opt_prop visitorTeam ''id''), (''goals'', Num 0)]])])
   }"

subsection \<open>Without it (server.js, lines 125 to 148 and 154 to 171; part_000, lines 312 to 329 and 335 to 346)\<close>

text \<open>
  The two files have the same shaping code, character for character up to layout.
  The callback \<open>s => s.participant_id === team.id\<close> reads \<open>team.id\<close> at each call.
\<close>

definition score_of_unguarded :: "jsval \<Rightarrow> jsval \<Rightarrow> bool option" where
  "score_of_unguarded team s = do {
     participant_id \<leftarrow> get_prop s ''participant_id'';
     team_id \<leftarrow> get_prop team ''id'';
     Some (strict_eq participant_id team_id)
   }"

definition shape_match_unguarded :: "jsval \<Rightarrow> jsval option" where
  "shape_match_unguarded match = do {
     participants \<leftarrow> get_prop match ''participants'';
     localTeam \<leftarrow> find_method participants (at_location ''home'');
     visitorTeam \<leftarrow> find_method participants (at_location ''away'');
     scores \<leftarrow> get_prop match ''scores'';
     localTeamScore \<leftarrow> find_method scores (score_of_unguarded localTeam);
     visitorTeamScore \<leftarrow> find_method scores (score_of_unguarded visitorTeam);
     id \<leftarrow> get_prop match ''id'';
     league_id \<leftarrow> get_prop match ''league_id'';
     round \<leftarrow> get_prop match ''round'';
     localteam_id \<leftarrow> get_prop localTeam ''id'';
     visitorteam_id \<leftarrow> get_prop visitorTeam ''id'';
     starting_at \<leftarrow> get_prop match ''starting_at'';
     state \<leftarrow> get_prop match ''state'';
     state_state \<leftarrow> get_prop state ''state'';
     status \<leftarrow> toUpperCase_method state_state;
     periods \<leftarrow> get_prop match ''periods'';
     period \<leftarrow> opt_find_method periods is_2hg;
     Some (Obj [
       (''id'', id),
       (''league_id'', league_id),
       (''round'', js_or (opt_prop round ''name'') (Str ''N/A'')),
       (''localteam_id'', localteam_id),
       (''visitorteam_id'', visitorteam_id),
       (''starting_at'', starting_at),
       (''status'', status),
       (''minute'', opt_prop period ''minutes''),
       (''live'', Bool (strict_eq state_state (Str ''live''))),
       (''scores'', Arr [
          Obj [(''team_id'', localteam_id),
               (''score'', js_or (opt_prop localTeamScore ''goals'') (Num 0))],
          Obj [(''team_id'', visitorteam_id),
               (''score'', js_or (opt_prop visitorTeamScore ''goals'') (Num 0))]]),
       (''participants'', participants)])
   }"

definition shape_fixture_unguarded :: "jsval \<Rightarrow> jsval option" where
  "shape_fixture_unguarded fixture = do {
     participants \<leftarrow> get_prop fixture ''participants'';
     localTeam \<leftarrow> find_method participants (at_location ''home'');
     visitorTeam \<leftarrow> find_method participants (at_location ''away'');
     id \<leftarrow> get_prop fixture ''id'';
     league_id \<leftarrow> get_prop fixture ''league_id'';
     round \<leftarrow> get_prop fixture ''round'';
     starting_at \<leftarrow> get_prop fixture ''starting_at'';
     state \<leftarrow> get_prop fixture ''state'';
     state_state \<leftarrow> get_prop state ''state'';
     status \<leftarrow> toUpperCase_method state_state;
     localteam_id \<leftarrow> get_prop localTeam ''id'';
     visitorteam_id \<leftarrow> get_prop visitorTeam ''id'';
     Some (Obj [
       (''id'', id),
       (''league_id'', league_id),
       (''round'', round),
       (''starting_at'', starting_at),
       (''status'', status),
       (''live'', Bool False),
       (''participants'', participants),
       (''scores'', Arr [
          Obj [(''participant_id'', localteam_id), (''goals'', Num 0)],
          Obj [(''participant_id'', visitorteam_id), (''goals'', Num 0)]])])
   }"


section \<open>The environment: upstream replies, console, responses\<close>

datatype task = Leagues | Teams | LiveScores | Fixtures

text \<open>
  What \<open>await axios.get(url, {params})\<close> does when it is reached: it rejects with an
  error object (\<open>Inl\<close>: network error, status outside 2xx) or resolves with a response
  whose \<open>data\<close> property, the body, is bound to the variable \<open>data\<close> (\<open>Inr\<close>).
\<close>

type_synonym reply = "jsval + jsval"

text \<open>
  What a \<open>catch (err)\<close> block receives: the rejection of the request (axios rejects
  with an error object, never with undefined or null), or the TypeError thrown by the
  statements after it.
\<close>

datatype error = TypeError | Rejected jsval

text \<open>
  \<open>err.response?.data?.message || err.message\<close>. The text of a TypeError's message is
  the engine's and is not modelled.
\<close>

fun error_message :: "error \<Rightarrow> jsval" where
  "error_message TypeError = Str ''TypeError''"
| "error_message (Rejected err) =
     js_or (opt_prop (opt_prop (opt_prop err ''response'') ''data'') ''message'')
           (opt_prop err ''message'')"

text \<open>
  The console keeps, for each call, its level and the task whose message it prints, and
  for \<open>console.error\<close> the message of the error. The requests sent upstream are kept
  with their path under \<open>BASE_URL\<close> and their \<open>params\<close>.
\<close>

datatype log_entry = ConsoleLog task | ConsoleWarn task | ConsoleError task jsval

record io =
  console :: "log_entry list"
  requests :: "(string \<times> jsval) list"

definition console_log :: "task \<Rightarrow> ('a io_scheme) \<Rightarrow> ('a io_scheme)" where
  "console_log t st = st\<lparr>console := console st @ [ConsoleLog t]\<rparr>"

definition console_warn :: "task \<Rightarrow> ('a io_scheme) \<Rightarrow> ('a io_scheme)" where
  "console_warn t st = st\<lparr>console := console st @ [ConsoleWarn t]\<rparr>"

definition console_error :: "task \<Rightarrow> error \<Rightarrow> ('a io_scheme) \<Rightarrow> ('a io_scheme)" where
  "console_error t err st = st\<lparr>console := console st @ [ConsoleError t (error_message err)]\<rparr>"

definition axios_get :: "string \<Rightarrow> jsval \<Rightarrow> ('a io_scheme) \<Rightarrow> ('a io_scheme)" where
  "axios_get path params st = st\<lparr>requests := requests st @ [(path, params)]\<rparr>"

text \<open>
  \<open>res.json(v)\<close> answers with status 200, Express's default, and the body \<open>v\<close>, kept
  here as the value before its serialisation (which leaves out the properties whose
  value is undefined). A handler that throws before it answers has the result \<open>None\<close>;
  Express then answers with an error status.
\<close>

record response =
  status :: nat
  body :: jsval

definition res_json :: "jsval \<Rightarrow> response" where
  "res_json v = \<lparr>status = 200, body = v\<rparr>"

text \<open>The projection of a league or team at refresh time.\<close>

definition summary :: "jsval \<Rightarrow> jsval option" where
  "summary x = do {
     id \<leftarrow> get_prop x ''id'';
     name \<leftarrow> get_prop x ''name'';
     image_path \<leftarrow> get_prop x ''image_path'';
     Some (Obj [(''id'', id), (''name'', name), (''image_path'', image_path)])
   }"

text \<open>\<open>data.data.map(summary)\<close> on the body \<open>data\<close>.\<close>

definition summaries :: "jsval \<Rightarrow> jsval option" where
  "summaries data = do {
     data_data \<leftarrow> get_prop data ''data'';
     map_method data_data summary
   }"

text \<open>\<open>data.data || []\<close> on the body \<open>data\<close>.\<close>

definition data_or_empty :: "jsval \<Rightarrow> jsval option" where
  "data_or_empty data = do {
     data_data \<leftarrow> get_prop data ''data'';
     Some (js_or data_data (Arr []))
   }"


section \<open>server.js: the caches are four module variables\<close>

record server_state = io +
  footballLiveScoresCache :: jsval
  footballTeamsCache :: jsval
  footballLeaguesCache :: jsval
  footballFixturesCache :: jsval

definition server_init :: server_state where
  "server_init = \<lparr>console = [], requests = [],
     footballLiveScoresCache = Arr [], footballTeamsCache = Arr [],
     footballLeaguesCache = Arr [], footballFixturesCache = Arr []\<rparr>"

definition server_fetchFootballLeagues :: "jsval \<Rightarrow> reply \<Rightarrow> server_state \<Rightarrow> server_state" where
  "server_fetchFootballLeagues API_TOKEN reply st =
     (if \<not> truthy API_TOKEN then st
      else
        let st1 = axios_get ''/leagues'' (Obj [(''api_token'', API_TOKEN)]) st in
        case reply of
          Inl err \<Rightarrow> console_error Leagues (Rejected err) st1
        | Inr data \<Rightarrow>
            (case summaries data of
               None \<Rightarrow> console_error Leagues TypeError st1
             | Some leagues \<Rightarrow> console_log Leagues (st1\<lparr>footballLeaguesCache := leagues\<rparr>)))"

definition server_fetchFootballTeams :: "jsval \<Rightarrow> reply \<Rightarrow> server_state \<Rightarrow> server_state" where
  "server_fetchFootballTeams API_TOKEN reply st =
     (if \<not> truthy API_TOKEN then st
      else
        let st1 = axios_get ''/teams'' (Obj [(''api_token'', API_TOKEN)]) st in
        case reply of
          Inl err \<Rightarrow> console_error Teams (Rejected err) st1
        | Inr data \<Rightarrow>
            (case summaries data of
               None \<Rightarrow> console_error Teams TypeError st1
             | Some teams \<Rightarrow> console_log Teams (st1\<lparr>footballTeamsCache := teams\<rparr>)))"

definition server_fetchFootballLiveScores :: "jsval \<Rightarrow> reply \<Rightarrow> server_state \<Rightarrow> server_state" where
  "server_fetchFootballLiveScores API_TOKEN reply st =
     (if \<not> truthy API_TOKEN then console_warn LiveScores st
      else
        let st1 = axios_get ''/livescores''
                    (Obj [(''api_token'', API_TOKEN),
                          (''include'', Str ''scores;participants;state;league'')]) st in
        case reply of
          Inl err \<Rightarrow> console_error LiveScores (Rejected err) st1
        | Inr data \<Rightarrow>
            (case data_or_empty data of
               None \<Rightarrow> console_error LiveScores TypeError st1
             | Some matches \<Rightarrow> console_log LiveScores (st1\<lparr>footballLiveScoresCache := matches\<rparr>)))"

definition server_fetchFootballFixtures :: "jsval \<Rightarrow> reply \<Rightarrow> server_state \<Rightarrow> server_state" where
  "server_fetchFootballFixtures API_TOKEN reply st =
     (if \<not> truthy API_TOKEN then console_warn Fixtures st
      else
        let st1 = axios_get ''/fixtures''
                    (Obj [(''api_token'', API_TOKEN),
                          (''include'', Str ''participants;league;round;state'')]) st in
        case reply of
          Inl err \<Rightarrow> console_error Fixtures (Rejected err) st1
        | Inr data \<Rightarrow>
            (case data_or_empty data of
               None \<Rightarrow> console_error Fixtures TypeError st1
             | Some fixtures \<Rightarrow> console_log Fixtures (st1\<lparr>footballFixturesCache := fixtures\<rparr>)))"

fun server_refresh :: "task \<Rightarrow> jsval \<Rightarrow> reply \<Rightarrow> server_state \<Rightarrow> server_state" where
  "server_refresh Leagues = server_fetchFootballLeagues"
| "server_refresh Teams = server_fetchFootballTeams"
| "server_refresh LiveScores = server_fetchFootballLiveScores"
| "server_refresh Fixtures = server_fetchFootballFixtures"

text \<open>The variable a task assigns.\<close>

fun server_cache :: "task \<Rightarrow> server_state \<Rightarrow> jsval" where
  "server_cache Leagues = footballLeaguesCache"
| "server_cache Teams = footballTeamsCache"
| "server_cache LiveScores = footballLiveScoresCache"
| "server_cache Fixtures = footballFixturesCache"

text \<open>
  A run of the process: \<open>initializeData\<close> and the four timers start tasks one after the
  other, each with the reply its request gets.
\<close>

fun server_run :: "jsval \<Rightarrow> (task \<times> reply) list \<Rightarrow> server_state \<Rightarrow> server_state" where
  "server_run API_TOKEN [] st = st"
| "server_run API_TOKEN ((t, reply) # es) st =
     server_run API_TOKEN es (server_refresh t API_TOKEN reply st)"

definition server_get_livescores :: "server_state \<Rightarrow> response option" where
  "server_get_livescores st = do {
     shapedData \<leftarrow> map_method (footballLiveScoresCache st) shape_match_unguarded;
     Some (res_json (Obj [(''data'', shapedData)]))
   }"

definition server_get_fixtures :: "server_state \<Rightarrow> response option" where
  "server_get_fixtures st = do {
     shapedData \<leftarrow> map_method (footballFixturesCache st) shape_fixture_unguarded;
     Some (res_json (Obj [(''data'', shapedData)]))
   }"

definition server_get_teams :: "server_state \<Rightarrow> response option" where
  "server_get_teams st = Some (res_json (Obj [(''data'', footballTeamsCache st)]))"

definition server_get_leagues :: "server_state \<Rightarrow> response option" where
  "server_get_leagues st = Some (res_json (Obj [(''data'', footballLeaguesCache st)]))"


section \<open>part_000: one cache store with a time to live\<close>

subsection \<open>The cache store\<close>

text \<open>
  Modelled from the spec: the methods \<open>set\<close> and \<open>get\<close> and the expiry sweep of the
  \<open>node-cache\<close> package, whose code is not among the sources; the server only constructs
  the store, \<open>new NodeCache({ stdTTL: 60 * 15, checkperiod: 120 })\<close>. An entry is
  \<open>{ value, storedAt, ttl }\<close>; \<open>set\<close> stores the value with \<open>storedAt = now\<close> and the
  configured ttl and overwrites any entry of the key; \<open>get\<close> returns the stored value if
  \<open>now - storedAt < ttl\<close> and is absent (undefined) if the key was never set or has
  expired; the sweep evicts the entries whose age exceeds their ttl. Times are in
  seconds.
\<close>

record cache_entry =
  cached :: jsval
  storedAt :: int
  ttl :: int

type_synonym cache_store = "string \<rightharpoonup> cache_entry"

definition stdTTL :: int where
  "stdTTL = 60 * 15"

definition checkperiod :: int where
  "checkperiod = 120"

definition cache_set :: "int \<Rightarrow> string \<Rightarrow> jsval \<Rightarrow> cache_store \<Rightarrow> cache_store" where
  "cache_set now key v store = store(key \<mapsto> \<lparr>cached = v, storedAt = now, ttl = stdTTL\<rparr>)"

definition cache_get :: "int \<Rightarrow> cache_store \<Rightarrow> string \<Rightarrow> jsval" where
  "cache_get now store key =
     (case store key of
        None \<Rightarrow> Undefined
      | Some e \<Rightarrow> if now - storedAt e < ttl e then cached e else Undefined)"

definition cache_sweep :: "int \<Rightarrow> cache_store \<Rightarrow> cache_store" where
  "cache_sweep now store =
     (\<lambda>key. case store key of
        None \<Rightarrow> None
      | Some e \<Rightarrow> if now - storedAt e > ttl e then None else Some e)"

text \<open>Any number of sweeps, at the given times.\<close>

fun cache_sweeps :: "int list \<Rightarrow> cache_store \<Rightarrow> cache_store" where
  "cache_sweeps [] store = store"
| "cache_sweeps (t # ts) store = cache_sweeps ts (cache_sweep t store)"

subsection \<open>The refresh tasks (lines 33 to 99)\<close>

record app_state = io +
  appCache :: cache_store

definition app_init :: app_state where
  "app_init = \<lparr>console = [], requests = [], appCache = Map.empty\<rparr>"

text \<open>The time \<open>now\<close> is the one at which the task resumes after its request.\<close>

definition fetchFootballLeagues :: "jsval \<Rightarrow> reply \<Rightarrow> int \<Rightarrow> app_state \<Rightarrow> app_state" where
  "fetchFootballLeagues API_TOKEN reply now st =
     (if \<not> truthy API_TOKEN then st
      else
        let st1 = axios_get ''/leagues'' (Obj [(''api_token'', API_TOKEN)]) st in
        case reply of
          Inl err \<Rightarrow> console_error Leagues (Rejected err) st1
        | Inr data \<Rightarrow>
            (case summaries data of
               None \<Rightarrow> console_error Leagues TypeError st1
             | Some leagues \<Rightarrow>
                 console_log Leagues
                   (st1\<lparr>appCache := cache_set now ''leagues'' leagues (appCache st1)\<rparr>)))"

definition fetchFootballTeams :: "jsval \<Rightarrow> reply \<Rightarrow> int \<Rightarrow> app_state \<Rightarrow> app_state" where
  "fetchFootballTeams API_TOKEN reply now st =
     (if \<not> truthy API_TOKEN then st
      else
        let st1 = axios_get ''/teams'' (Obj [(''api_token'', API_TOKEN)]) st in
        case reply of
          Inl err \<Rightarrow> console_error Teams (Rejected err) st1
        | Inr data \<Rightarrow>
            (case summaries data of
               None \<Rightarrow> console_error Teams TypeError st1
             | Some teams \<Rightarrow>
                 console_log Teams
                   (st1\<lparr>appCache := cache_set now ''teams'' teams (appCache st1)\<rparr>)))"

definition fetchFootballLiveScores :: "jsval \<Rightarrow> reply \<Rightarrow> int \<Rightarrow> app_state \<Rightarrow> app_state" where
  "fetchFootballLiveScores API_TOKEN reply now st =
     (if \<not> truthy API_TOKEN then st
      else
        let st1 = axios_get ''/livescores''
                    (Obj [(''api_token'', API_TOKEN),
                          (''include'', Str ''scores;participants;state;league'')]) st in
        case reply of
          Inl err \<Rightarrow> console_error LiveScores (Rejected err) st1
        | Inr data \<Rightarrow>
            (case data_or_empty data of
               None \<Rightarrow> console_error LiveScores TypeError st1
             | Some matches \<Rightarrow>
                 console_log LiveScores
                   (st1\<lparr>appCache := cache_set now ''liveScores'' matches (appCache st1)\<rparr>)))"

definition fetchFootballFixtures :: "jsval \<Rightarrow> reply \<Rightarrow> int \<Rightarrow> app_state \<Rightarrow> app_state" where
  "fetchFootballFixtures API_TOKEN reply now st =
     (if \<not> truthy API_TOKEN then st
      else
        let st1 = axios_get ''/fixtures''
                    (Obj [(''api_token'', API_TOKEN),
                          (''include'', Str ''participants;league;round;state'')]) st in
        case reply of
          Inl err \<Rightarrow> console_error Fixtures (Rejected err) st1
        | Inr data \<Rightarrow>
            (case data_or_empty data of
               None \<Rightarrow> console_error Fixtures TypeError st1
             | Some fixtures \<Rightarrow>
                 console_log Fixtures
                   (st1\<lparr>appCache := cache_set now ''fixtures'' fixtures (appCache st1)\<rparr>)))"

fun refresh :: "task \<Rightarrow> jsval \<Rightarrow> reply \<Rightarrow> int \<Rightarrow> app_state \<Rightarrow> app_state" where
  "refresh Leagues = fetchFootballLeagues"
| "refresh Teams = fetchFootballTeams"
| "refresh LiveScores = fetchFootballLiveScores"
| "refresh Fixtures = fetchFootballFixtures"

text \<open>The key a task writes.\<close>

fun cache_key :: "task \<Rightarrow> string" where
  "cache_key Leagues = ''leagues''"
| "cache_key Teams = ''teams''"
| "cache_key LiveScores = ''liveScores''"
| "cache_key Fixtures = ''fixtures''"

text \<open>
  A run of the process: tasks started by \<open>initializeData\<close> and the timers, each with the
  reply its request gets and the time at which it resumes, and sweeps of the store in
  between.
\<close>

datatype event = Refresh task reply int | Sweep int

fun run :: "jsval \<Rightarrow> event list \<Rightarrow> app_state \<Rightarrow> app_state" where
  "run API_TOKEN [] st = st"
| "run API_TOKEN (Refresh t reply now # es) st = run API_TOKEN es (refresh t API_TOKEN reply now st)"
| "run API_TOKEN (Sweep now # es) st = run API_TOKEN es (st\<lparr>appCache := cache_sweep now (appCache st)\<rparr>)"

subsection \<open>The routes of the first file (lines 122 to 179)\<close>

definition get_livescores :: "int \<Rightarrow> app_state \<Rightarrow> response option" where
  "get_livescores now st = do {
     shapedData \<leftarrow> map_method (js_or (cache_get now (appCache st) ''liveScores'') (Arr [])) shape_match;
     Some (res_json (Obj [(''data'', shapedData)]))
   }"

definition get_fixtures :: "int \<Rightarrow> app_state \<Rightarrow> response option" where
  "get_fixtures now st = do {
     shapedData \<leftarrow> map_method (js_or (cache_get now (appCache st) ''fixtures'') (Arr [])) shape_fixture;
     Some (res_json (Obj [(''data'', shapedData)]))
   }"

definition get_teams :: "int \<Rightarrow> app_state \<Rightarrow> response option" where
  "get_teams now st =
     Some (res_json (Obj [(''data'', js_or (cache_get now (appCache st) ''teams'') (Arr []))]))"

definition get_leagues :: "int \<Rightarrow> app_state \<Rightarrow> response option" where
  "get_leagues now st =
     Some (res_json (Obj [(''data'', js_or (cache_get now (appCache st) ''leagues'') (Arr []))]))"

subsection \<open>The shaping routes of the second file (lines 310 to 348)\<close>

text \<open>
  The second file of part_000 has the refresh tasks and the teams and leagues routes of
  the first one (up to the text of the console messages) and the shaping code of
  server.js.
\<close>

definition get_livescores_unguarded :: "int \<Rightarrow> app_state \<Rightarrow> response option" where
  "get_livescores_unguarded now st = do {
     shapedData \<leftarrow> map_method (js_or (cache_get now (appCache st) ''liveScores'') (Arr [])) shape_match_unguarded;
     Some (res_json (Obj [(''data'', shapedData)]))
   }"

definition get_fixtures_unguarded :: "int \<Rightarrow> app_state \<Rightarrow> response option" where
  "get_fixtures_unguarded now st = do {
     shapedData \<leftarrow> map_method (js_or (cache_get now (appCache st) ''fixtures'') (Arr [])) shape_fixture_unguarded;
     Some (res_json (Obj [(''data'', shapedData)]))
   }"


section \<open>The vocabulary of the properties\<close>

text \<open>The elements of an array; no elements for any other value.\<close>

definition elements :: "jsval \<Rightarrow> jsval list" where
  "elements v = (case v of Arr xs \<Rightarrow> xs | _ \<Rightarrow> [])"

definition participants_of :: "jsval \<Rightarrow> jsval list" where
  "participants_of m = elements (opt_prop m ''participants'')"

definition location_of :: "jsval \<Rightarrow> jsval" where
  "location_of p = opt_prop (opt_prop p ''meta'') ''location''"

text \<open>The first participant at a location, undefined when there is none.\<close>

definition participant_at :: "string \<Rightarrow> jsval list \<Rightarrow> jsval" where
  "participant_at loc ps =
     (case List.find (\<lambda>p. location_of p = Str loc) ps of None \<Rightarrow> Undefined | Some p \<Rightarrow> p)"

definition state_of :: "jsval \<Rightarrow> jsval" where
  "state_of m = opt_prop (opt_prop m ''state'') ''state''"

text \<open>The first period of type 2hg, undefined when there is none.\<close>

definition period_2hg :: "jsval \<Rightarrow> jsval" where
  "period_2hg m =
     (case List.find (\<lambda>p. opt_prop p ''type'' = Str ''2hg'') (elements (opt_prop m ''periods'')) of
        None \<Rightarrow> Undefined
      | Some p \<Rightarrow> p)"

text \<open>
  What the shaping code takes for granted in a record: every participant has its
  \<open>meta\<close>, \<open>scores\<close> is an array of score entries, \<open>state.state\<close> is a string when it is
  there, and \<open>periods\<close> is an array of period entries when it is there.
\<close>

definition well_formed_participants :: "jsval list \<Rightarrow> bool" where
  "well_formed_participants ps = list_all (\<lambda>p. \<not> nullish (opt_prop p ''meta'')) ps"

definition string_or_absent :: "jsval \<Rightarrow> bool" where
  "string_or_absent v = (case v of Undefined \<Rightarrow> True | Null \<Rightarrow> True | Str s \<Rightarrow> True | _ \<Rightarrow> False)"

definition entries_or_absent :: "jsval \<Rightarrow> bool" where
  "entries_or_absent v =
     (case v of
        Undefined \<Rightarrow> True
      | Null \<Rightarrow> True
      | Arr ps \<Rightarrow> list_all (\<lambda>p. \<not> nullish p) ps
      | _ \<Rightarrow> False)"

definition well_formed_fixture :: "jsval \<Rightarrow> bool" where
  "well_formed_fixture f =
     ((case opt_prop f ''participants'' of Arr ps \<Rightarrow> well_formed_participants ps | _ \<Rightarrow> False) \<and>
      string_or_absent (state_of f))"

definition well_formed_match :: "jsval \<Rightarrow> bool" where
  "well_formed_match m =
     (well_formed_fixture m \<and>
      (case opt_prop m ''scores'' of Arr ss \<Rightarrow> list_all (\<lambda>s. \<not> nullish s) ss | _ \<Rightarrow> False) \<and>
      entries_or_absent (opt_prop m ''periods''))"

text \<open>
  The rows of a shaped match: exactly two, the first with the id of the home
  participant, which is the output's \<open>localteam_id\<close>, the second with the id of the
  away participant, which is its \<open>visitorteam_id\<close>.
\<close>

definition match_rows :: "jsval \<Rightarrow> jsval \<Rightarrow> bool" where
  "match_rows m out =
     (opt_prop out ''localteam_id'' = opt_prop (participant_at ''home'' (participants_of m)) ''id'' \<and>
      opt_prop out ''visitorteam_id'' = opt_prop (participant_at ''away'' (participants_of m)) ''id'' \<and>
      map (\<lambda>row. opt_prop row ''team_id'') (elements (opt_prop out ''scores'')) =
        [opt_prop out ''localteam_id'', opt_prop out ''visitorteam_id''])"

definition fixture_rows :: "jsval \<Rightarrow> jsval \<Rightarrow> bool" where
  "fixture_rows f out =
     (map (\<lambda>row. opt_prop row ''participant_id'') (elements (opt_prop out ''scores'')) =
        [opt_prop (participant_at ''home'' (participants_of f)) ''id'',
         opt_prop (participant_at ''away'' (participants_of f)) ''id''])"

subsection \<open>Records used as examples\<close>

definition home_10 :: jsval where
  "home_10 = Obj [(''id'', Num 10), (''meta'', Obj [(''location'', Str ''home'')])]"

definition away_20 :: jsval where
  "away_20 = Obj [(''id'', Num 20), (''meta'', Obj [(''location'', Str ''away'')])]"

definition scores_2_1 :: jsval where
  "scores_2_1 = Arr [Obj [(''participant_id'', Num 10), (''goals'', Num 2)],
                     Obj [(''participant_id'', Num 20), (''goals'', Num 1)]]"

definition live_match :: jsval where
  "live_match = Obj [
     (''participants'', Arr [home_10, away_20]),
     (''scores'', scores_2_1),
     (''state'', Obj [(''state'', Str ''live'')])]"

definition shaped_live_match :: jsval where
  "shaped_live_match = Obj [
     (''id'', Undefined),
     (''league_id'', Undefined),
     (''round'', Str ''N/A''),
     (''localteam_id'', Num 10),
     (''visitorteam_id'', Num 20),
     (''starting_at'', Undefined),
     (''status'', Str ''LIVE''),
     (''minute'', Undefined),
     (''live'', Bool True),
     (''scores'', Arr [Obj [(''team_id'', Num 10), (''score'', Num 2)],
                       Obj [(''team_id'', Num 20), (''score'', Num 1)]]),
     (''participants'', Arr [home_10, away_20])]"

definition ns_fixture :: jsval where
  "ns_fixture = Obj [
     (''participants'', Arr [home_10, away_20]),
     (''round'', Obj [(''name'', Str ''5'')]),
     (''state'', Obj [(''state'', Str ''NS'')])]"

definition shaped_ns_fixture :: jsval where
  "shaped_ns_fixture = Obj [
     (''id'', Undefined),
     (''league_id'', Undefined),
     (''round'', Obj [(''name'', Str ''5'')]),
     (''starting_at'', Undefined),
     (''status'', Str ''NS''),
     (''live'', Bool False),
     (''participants'', Arr [home_10, away_20]),
     (''scores'', Arr [Obj [(''participant_id'', Num 10), (''goals'', Num 0)],
                       Obj [(''participant_id'', Num 20), (''goals'', Num 0)]])]"

text \<open>A match whose home participant is not in the list.\<close>

definition match_without_home :: jsval where
  "match_without_home = Obj [
     (''participants'', Arr [away_20]),
     (''scores'', scores_2_1),
     (''state'', Obj [(''state'', Str ''live'')])]"

text \<open>A match without its state.\<close>

definition match_without_state :: jsval where
  "match_without_state = Obj [
     (''participants'', Arr [home_10, away_20]),
     (''scores'', scores_2_1)]"

text \<open>A match whose state string is empty.\<close>

definition match_empty_state :: jsval where
  "match_empty_state = Obj [
     (''participants'', Arr [home_10, away_20]),
     (''scores'', scores_2_1),
     (''state'', Obj [(''state'', Str [])])]"

text \<open>A match in its second half, whose round has the empty name.\<close>

definition match_empty_round :: jsval where
  "match_empty_round = Obj [
     (''participants'', Arr [home_10, away_20]),
     (''scores'', scores_2_1),
     (''round'', Obj [(''name'', Str [])]),
     (''periods'', Arr [Obj [(''type'', Str ''1st''), (''minutes'', Num 45)],
                        Obj [(''type'', Str ''2hg''), (''minutes'', Num 63)]]),
     (''state'', Obj [(''state'', Str ''live'')])]"

definition shaped_without_home :: jsval where
  "shaped_without_home = Obj [
     (''id'', Undefined),
     (''league_id'', Undefined),
     (''round'', Str ''N/A''),
     (''localteam_id'', Undefined),
     (''visitorteam_id'', Num 20),
     (''starting_at'', Undefined),
     (''status'', Str ''LIVE''),
     (''minute'', Undefined),
     (''live'', Bool True),
     (''scores'', Arr [Obj [(''team_id'', Undefined), (''score'', Num 0)],
                       Obj [(''team_id'', Num 20), (''score'', Num 1)]]),
     (''participants'', Arr [away_20])]"

text \<open>A body of the live scores whose second match has no home participant.\<close>

definition body_without_home :: jsval where
  "body_without_home = Obj [(''data'', Arr [live_match, match_without_home])]"

text \<open>
  A body with the live match, and the body the provider sends when it has no live
  match: a message and no \<open>data\<close>.
\<close>

definition body_live :: jsval where
  "body_live = Obj [(''data'', Arr [live_match])]"

definition body_without_data :: jsval where
  "body_without_data = Obj [(''message'', Str ''No result(s) found matching your request'')]"

text \<open>A match in its second half, with the name of its round.\<close>

definition second_half_match :: jsval where
  "second_half_match = Obj [
     (''participants'', Arr [home_10, away_20]),
     (''scores'', scores_2_1),
     (''round'', Obj [(''name'', Str ''5'')]),
     (''periods'', Arr [Obj [(''type'', Str ''1st''), (''minutes'', Num 45)],
                        Obj [(''type'', Str ''2hg''), (''minutes'', Num 63)]]),
     (''state'', Obj [(''state'', Str ''live'')])]"

definition shaped_empty_state :: jsval where
  "shaped_empty_state = Obj [
     (''id'', Undefined),
     (''league_id'', Undefined),
     (''round'', Str ''N/A''),
     (''localteam_id'', Num 10),
     (''visitorteam_id'', Num 20),
     (''starting_at'', Undefined),
     (''status'', Str ''N/A''),
     (''minute'', Undefined),
     (''live'', Bool False),
     (''scores'', Arr [Obj [(''team_id'', Num 10), (''score'', Num 2)],
                       Obj [(''team_id'', Num 20), (''score'', Num 1)]]),
     (''participants'', Arr [home_10, away_20])]"

definition shaped_empty_round :: jsval where
  "shaped_empty_round = Obj [
     (''id'', Undefined),
     (''league_id'', Undefined),
     (''round'', Str ''N/A''),
     (''localteam_id'', Num 10),
     (''visitorteam_id'', Num 20),
     (''starting_at'', Undefined),
     (''status'', Str ''LIVE''),
     (''minute'', Num 63),
     (''live'', Bool True),
     (''scores'', Arr [Obj [(''team_id'', Num 10), (''score'', Num 2)],
                       Obj [(''team_id'', Num 20), (''score'', Num 1)]]),
     (''participants'', Arr [home_10, away_20])]"

text \<open>
  What the shaping code without optional chaining takes for granted in addition: both
  participants are in the list and \<open>state.state\<close> is a string.
\<close>

definition is_string :: "jsval \<Rightarrow> bool" where
  "is_string v = (case v of Str s \<Rightarrow> True | _ \<Rightarrow> False)"

definition has_participant :: "string \<Rightarrow> jsval \<Rightarrow> bool" where
  "has_participant loc m = (\<not> nullish (participant_at loc (participants_of m)))"

definition complete_fixture :: "jsval \<Rightarrow> bool" where
  "complete_fixture f =
     (well_formed_fixture f \<and> has_participant ''home'' f \<and> has_participant ''away'' f \<and>
      is_string (state_of f))"

definition complete_match :: "jsval \<Rightarrow> bool" where
  "complete_match m = (well_formed_match m \<and> complete_fixture m)"

text \<open>
  The live match again, as the provider may send it: the away participant listed
  first, a third participant without a location, and the other fields filled.
\<close>

definition away_first_match :: jsval where
  "away_first_match = Obj [
     (''id'', Num 7),
     (''league_id'', Num 8),
     (''starting_at'', Str ''2024-05-01 18:00:00''),
     (''participants'',
        Arr [away_20, Obj [(''id'', Num 30), (''meta'', Obj [])], home_10]),
     (''scores'', scores_2_1),
     (''round'', Obj [(''name'', Str ''5'')]),
     (''periods'', Arr [Obj [(''type'', Str ''2hg''), (''minutes'', Num 63)]]),
     (''state'', Obj [(''id'', Num 3), (''state'', Str ''live'')])]"

definition shaped_away_first :: jsval where
  "shaped_away_first = Obj [
     (''id'', Num 7),
     (''league_id'', Num 8),
     (''round'', Str ''5''),
     (''localteam_id'', Num 10),
     (''visitorteam_id'', Num 20),
     (''starting_at'', Str ''2024-05-01 18:00:00''),
     (''status'', Str ''LIVE''),
     (''minute'', Num 63),
     (''live'', Bool True),
     (''scores'', Arr [Obj [(''team_id'', Num 10), (''score'', Num 2)],
                       Obj [(''team_id'', Num 20), (''score'', Num 1)]]),
     (''participants'',
        Arr [away_20, Obj [(''id'', Num 30), (''meta'', Obj [])], home_10])]"

text \<open>The fixture with the away participant listed first.\<close>

definition away_first_fixture :: jsval where
  "away_first_fixture = Obj [
     (''id'', Num 9),
     (''participants'', Arr [away_20, home_10]),
     (''round'', Obj [(''name'', Str ''5'')]),
     (''state'', Obj [(''state'', Str ''NS'')])]"

text \<open>A body of fixtures.\<close>

definition body_fixtures :: jsval where
  "body_fixtures = Obj [(''data'', Arr [ns_fixture, away_first_fixture])]"

text \<open>A body of live matches that all have both participants.\<close>

definition body_live_two :: jsval where
  "body_live_two = Obj [(''data'', Arr [live_match, away_first_match])]"

text \<open>
  States after a refresh of the live scores and of the fixtures: of the first file of
  part_000 with a match without its home participant, of the second file and of
  server.js with matches that have both participants.
\<close>

definition cached_first :: app_state where
  "cached_first =
     fetchFootballFixtures (Str ''token'') (Inr body_fixtures) 0
       (fetchFootballLiveScores (Str ''token'') (Inr body_without_home) 0 app_init)"

definition cached_second :: app_state where
  "cached_second =
     fetchFootballFixtures (Str ''token'') (Inr body_fixtures) 0
       (fetchFootballLiveScores (Str ''token'') (Inr body_live_two) 0 app_init)"

definition cached_server :: server_state where
  "cached_server =
     server_fetchFootballFixtures (Str ''token'') (Inr body_fixtures)
       (server_fetchFootballLiveScores (Str ''token'') (Inr body_live_two) server_init)"


section \<open>Reading properties, searching arrays\<close>

lemma strict_eq_Str: "strict_eq v (Str s) = (v = Str s)"
  by (cases v) auto

lemma get_prop_Some: "get_prop v k = Some x \<Longrightarrow> \<not> nullish v \<and> x = opt_prop v k"
  by (cases v) auto

lemma get_prop_opt: "\<not> nullish v \<Longrightarrow> get_prop v k = Some (opt_prop v k)"
  by (cases v) auto

lemma opt_prop_nonnullish: "\<not> nullish (opt_prop v k) \<Longrightarrow> \<not> nullish v"
  by (cases v) auto

lemma find_method_Some:
  "find_method v cb = Some r \<Longrightarrow> \<exists>xs. v = Arr xs \<and> array_find cb xs = Some r"
  by (cases v) auto

lemma array_find_total:
  "\<forall>x\<in>set xs. \<exists>b. cb x = Some b \<Longrightarrow> \<exists>r. array_find cb xs = Some r"
  by (induction xs) auto

lemma toUpperCase_method_Some:
  "toUpperCase_method v = Some r \<Longrightarrow> \<exists>s. v = Str s \<and> r = Str (toUpperCase s)"
  by (cases v) auto

lemma opt_toUpperCase_total:
  "string_or_absent v \<Longrightarrow> \<exists>r. opt_toUpperCase_method v = Some r"
  by (cases v) (auto simp: opt_toUpperCase_method_def string_or_absent_def)

lemma toUpperCase_Nil: "(toUpperCase s = []) = (s = [])"
  by (simp add: toUpperCase_def)

lemma array_map_list_all2:
  "array_map cb xs = Some ys \<Longrightarrow> list_all2 (\<lambda>x y. cb x = Some y) xs ys"
  by (induction xs arbitrary: ys) (auto split: option.splits)

lemma array_map_total:
  "\<forall>x\<in>set xs. \<exists>y. cb x = Some y \<Longrightarrow> \<exists>ys. array_map cb xs = Some ys"
  by (induction xs) auto

lemma map_method_Some:
  "map_method v cb = Some r \<Longrightarrow>
   \<exists>xs ys. v = Arr xs \<and> r = Arr ys \<and> list_all2 (\<lambda>x y. cb x = Some y) xs ys"
  by (cases v) (auto dest: array_map_list_all2)

subsection \<open>The searches of the shaping code\<close>

lemma at_location_Some:
  "at_location loc p = Some b \<Longrightarrow> b = (location_of p = Str loc)"
  by (auto simp: at_location_def location_of_def bind_eq_Some_conv strict_eq_Str
           dest!: get_prop_Some)

lemma at_location_total:
  "\<not> nullish (opt_prop p ''meta'') \<Longrightarrow> at_location loc p = Some (location_of p = Str loc)"
  by (simp add: at_location_def location_of_def get_prop_opt opt_prop_nonnullish strict_eq_Str)

lemma array_find_at_location:
  "array_find (at_location loc) ps = Some r \<Longrightarrow> r = participant_at loc ps"
proof (induction ps)
  case Nil
  then show ?case by (simp add: participant_at_def)
next
  case (Cons p ps)
  then show ?case
    by (auto simp: participant_at_def split: option.splits if_splits dest: at_location_Some)
qed

lemma array_find_at_location_total:
  "well_formed_participants ps \<Longrightarrow>
   array_find (at_location loc) ps = Some (participant_at loc ps)"
  by (induction ps)
     (auto simp: participant_at_def well_formed_participants_def at_location_total)

lemma find_participant:
  "find_method (opt_prop m ''participants'') (at_location loc) = Some r \<Longrightarrow>
   r = participant_at loc (participants_of m)"
  by (auto simp: participants_of_def elements_def dest!: find_method_Some array_find_at_location)

lemma participant_at_absent:
  "list_all (\<lambda>p. location_of p \<noteq> Str loc) ps \<Longrightarrow> participant_at loc ps = Undefined"
  by (induction ps) (auto simp: participant_at_def)

lemma is_2hg_Some: "is_2hg p = Some b \<Longrightarrow> b = (opt_prop p ''type'' = Str ''2hg'')"
  by (auto simp: is_2hg_def bind_eq_Some_conv strict_eq_Str dest!: get_prop_Some)

lemma is_2hg_total: "\<not> nullish p \<Longrightarrow> \<exists>b. is_2hg p = Some b"
  by (simp add: is_2hg_def get_prop_opt)

lemma array_find_is_2hg:
  "array_find is_2hg ps = Some r \<Longrightarrow>
   r = (case List.find (\<lambda>p. opt_prop p ''type'' = Str ''2hg'') ps of
          None \<Rightarrow> Undefined | Some p \<Rightarrow> p)"
  by (induction ps) (auto split: option.splits if_splits dest: is_2hg_Some)

lemma opt_find_is_2hg:
  "opt_find_method (opt_prop m ''periods'') is_2hg = Some r \<Longrightarrow> r = period_2hg m"
  by (cases "opt_prop m ''periods''")
     (auto simp: opt_find_method_def period_2hg_def elements_def dest: array_find_is_2hg)

lemma find_periods_total:
  "entries_or_absent v \<Longrightarrow> \<exists>r. opt_find_method v is_2hg = Some r"
  by (cases v)
     (auto simp: opt_find_method_def entries_or_absent_def list_all_iff is_2hg_total
           intro!: array_find_total)

lemma period_2hg_absent:
  "list_all (\<lambda>p. opt_prop p ''type'' \<noteq> Str ''2hg'') (elements (opt_prop m ''periods'')) \<Longrightarrow>
   period_2hg m = Undefined"
proof -
  have "list_all (\<lambda>p. opt_prop p ''type'' \<noteq> Str ''2hg'') ps \<Longrightarrow>
        List.find (\<lambda>p. opt_prop p ''type'' = Str ''2hg'') ps = None" for ps
    by (induction ps) auto
  then show "list_all (\<lambda>p. opt_prop p ''type'' \<noteq> Str ''2hg'') (elements (opt_prop m ''periods'')) \<Longrightarrow>
    period_2hg m = Undefined"
    by (simp add: period_2hg_def)
qed

lemma score_of_total: "\<not> nullish s \<Longrightarrow> \<exists>b. score_of team s = Some b"
  by (simp add: score_of_def get_prop_opt)

lemma find_scores_total:
  "list_all (\<lambda>s. \<not> nullish s) ss \<Longrightarrow> \<exists>r. array_find (score_of team) ss = Some r"
  by (rule array_find_total) (simp add: list_all_iff score_of_total)

subsection \<open>What a shaped record is, when there is one\<close>

lemma shape_match_Some:
  assumes "shape_match m = Some out"
  shows "\<exists>localTeamScore visitorTeamScore upper.
     opt_toUpperCase_method (state_of m) = Some upper \<and>
     out = Obj [
       (''id'', opt_prop m ''id''),
       (''league_id'', opt_prop m ''league_id''),
       (''round'', js_or (opt_prop (opt_prop m ''round'') ''name'') (Str ''N/A'')),
       (''localteam_id'', opt_prop (participant_at ''home'' (participants_of m)) ''id''),
       (''visitorteam_id'', opt_prop (participant_at ''away'' (participants_of m)) ''id''),
       (''starting_at'', opt_prop m ''starting_at''),
       (''status'', js_or upper (Str ''N/A'')),
       (''minute'', opt_prop (period_2hg m) ''minutes''),
       (''live'', Bool (state_of m = Str ''live'')),
       (''scores'', Arr [
          Obj [(''team_id'', opt_prop (participant_at ''home'' (participants_of m)) ''id''),
               (''score'', js_or (opt_prop localTeamScore ''goals'') (Num 0))],
          Obj [(''team_id'', opt_prop (participant_at ''away'' (participants_of m)) ''id''),
               (''score'', js_or (opt_prop visitorTeamScore ''goals'') (Num 0))]]),
       (''participants'', opt_prop m ''participants'')]"
  using assms unfolding shape_match_def bind_eq_Some_conv
  by (auto simp: state_of_def strict_eq_Str
           dest!: get_prop_Some dest: find_participant opt_find_is_2hg)

lemma shape_match_unguarded_Some:
  assumes "shape_match_unguarded m = Some out"
  shows "\<exists>localTeamScore visitorTeamScore s.
     state_of m = Str s \<and>
     \<not> nullish (participant_at ''home'' (participants_of m)) \<and>
     \<not> nullish (participant_at ''away'' (participants_of m)) \<and>
     out = Obj [
       (''id'', opt_prop m ''id''),
       (''league_id'', opt_prop m ''league_id''),
       (''round'', js_or (opt_prop (opt_prop m ''round'') ''name'') (Str ''N/A'')),
       (''localteam_id'', opt_prop (participant_at ''home'' (participants_of m)) ''id''),
       (''visitorteam_id'', opt_prop (participant_at ''away'' (participants_of m)) ''id''),
       (''starting_at'', opt_prop m ''starting_at''),
       (''status'', Str (toUpperCase s)),
       (''minute'', opt_prop (period_2hg m) ''minutes''),
       (''live'', Bool (state_of m = Str ''live'')),
       (''scores'', Arr [
          Obj [(''team_id'', opt_prop (participant_at ''home'' (participants_of m)) ''id''),
               (''score'', js_or (opt_prop localTeamScore ''goals'') (Num 0))],
          Obj [(''team_id'', opt_prop (participant_at ''away'' (participants_of m)) ''id''),
               (''score'', js_or (opt_prop visitorTeamScore ''goals'') (Num 0))]]),
       (''participants'', opt_prop m ''participants'')]"
  using assms unfolding shape_match_unguarded_def bind_eq_Some_conv
  by (auto simp: state_of_def strict_eq_Str
           dest!: get_prop_Some toUpperCase_method_Some dest: find_participant opt_find_is_2hg)

lemma shape_fixture_Some:
  assumes "shape_fixture f = Some out"
  shows "\<exists>upper.
     opt_toUpperCase_method (state_of f) = Some upper \<and>
     out = Obj [
       (''id'', opt_prop f ''id''),
       (''league_id'', opt_prop f ''league_id''),
       (''round'', opt_prop f ''round''),
       (''starting_at'', opt_prop f ''starting_at''),
       (''status'', js_or upper (Str ''N/A'')),
       (''live'', Bool False),
       (''participants'', opt_prop f ''participants''),
       (''scores'', Arr [
          Obj [(''participant_id'', opt_prop (participant_at ''home'' (participants_of f)) ''id''),
               (''goals'', Num 0)],
          Obj [(''participant_id'', opt_prop (participant_at ''away'' (participants_of f)) ''id''),
               (''goals'', Num 0)]])]"
  using assms unfolding shape_fixture_def bind_eq_Some_conv
  by (auto simp: state_of_def dest!: get_prop_Some dest: find_participant)

lemma shape_fixture_unguarded_Some:
  assumes "shape_fixture_unguarded f = Some out"
  shows "\<exists>s.
     state_of f = Str s \<and>
     \<not> nullish (participant_at ''home'' (participants_of f)) \<and>
     \<not> nullish (participant_at ''away'' (participants_of f)) \<and>
     out = Obj [
       (''id'', opt_prop f ''id''),
       (''league_id'', opt_prop f ''league_id''),
       (''round'', opt_prop f ''round''),
       (''starting_at'', opt_prop f ''starting_at''),
       (''status'', Str (toUpperCase s)),
       (''live'', Bool False),
       (''participants'', opt_prop f ''participants''),
       (''scores'', Arr [
          Obj [(''participant_id'', opt_prop (participant_at ''home'' (participants_of f)) ''id''),
               (''goals'', Num 0)],
          Obj [(''participant_id'', opt_prop (participant_at ''away'' (participants_of f)) ''id''),
               (''goals'', Num 0)]])]"
  using assms unfolding shape_fixture_unguarded_def bind_eq_Some_conv
  by (auto simp: state_of_def
           dest!: get_prop_Some toUpperCase_method_Some dest: find_participant)

subsection \<open>A well-formed record is shaped\<close>

lemma shape_fixture_total:
  assumes "well_formed_fixture f"
  shows "\<exists>out. shape_fixture f = Some out"
proof -
  from assms obtain ps where
    ps: "opt_prop f ''participants'' = Arr ps" "well_formed_participants ps"
    by (auto simp: well_formed_fixture_def split: jsval.splits)
  from ps(1) have f: "\<And>k. get_prop f k = Some (opt_prop f k)"
    by (cases f) auto
  obtain up where up: "opt_toUpperCase_method (state_of f) = Some up"
    using assms opt_toUpperCase_total by (auto simp: well_formed_fixture_def)
  show ?thesis
    using up by (simp add: shape_fixture_def f ps array_find_at_location_total state_of_def)
qed

lemma shape_match_total:
  assumes "well_formed_match m"
  shows "\<exists>out. shape_match m = Some out"
proof -
  from assms obtain ps ss where
    ps: "opt_prop m ''participants'' = Arr ps" "well_formed_participants ps" and
    ss: "opt_prop m ''scores'' = Arr ss" "list_all (\<lambda>s. \<not> nullish s) ss"
    by (auto simp: well_formed_match_def well_formed_fixture_def split: jsval.splits)
  from ps(1) have m: "\<And>k. get_prop m k = Some (opt_prop m k)"
    by (cases m) auto
  obtain s1 where s1: "array_find (score_of (participant_at ''home'' ps)) ss = Some s1"
    using find_scores_total [OF ss(2)] by blast
  obtain s2 where s2: "array_find (score_of (participant_at ''away'' ps)) ss = Some s2"
    using find_scores_total [OF ss(2)] by blast
  obtain up where up: "opt_toUpperCase_method (state_of m) = Some up"
    using assms opt_toUpperCase_total
    by (auto simp: well_formed_match_def well_formed_fixture_def)
  obtain pd where pd: "opt_find_method (opt_prop m ''periods'') is_2hg = Some pd"
    using assms find_periods_total by (auto simp: well_formed_match_def)
  show ?thesis
    using up pd
    by (simp add: shape_match_def m ps ss array_find_at_location_total s1 s2 state_of_def)
qed

lemma score_of_unguarded_total:
  "\<not> nullish team \<Longrightarrow> \<not> nullish s \<Longrightarrow> \<exists>b. score_of_unguarded team s = Some b"
  by (simp add: score_of_unguarded_def get_prop_opt)

lemma shape_match_unguarded_total:
  assumes "well_formed_match m"
    and "\<not> nullish (participant_at ''home'' (participants_of m))"
    and "\<not> nullish (participant_at ''away'' (participants_of m))"
    and "state_of m = Str s"
  shows "\<exists>out. shape_match_unguarded m = Some out"
proof -
  from assms(1) obtain ps ss where
    ps: "opt_prop m ''participants'' = Arr ps" "well_formed_participants ps" and
    ss: "opt_prop m ''scores'' = Arr ss" "list_all (\<lambda>s. \<not> nullish s) ss"
    by (auto simp: well_formed_match_def well_formed_fixture_def split: jsval.splits)
  from ps(1) have m: "\<And>k. get_prop m k = Some (opt_prop m k)"
    by (cases m) auto
  have home: "\<not> nullish (participant_at ''home'' ps)" and away: "\<not> nullish (participant_at ''away'' ps)"
    using assms(2,3) ps(1) by (simp_all add: participants_of_def elements_def)
  obtain s1 where s1: "array_find (score_of_unguarded (participant_at ''home'' ps)) ss = Some s1"
    using array_find_total [of ss "score_of_unguarded (participant_at ''home'' ps)"]
          ss(2) score_of_unguarded_total [OF home]
    by (auto simp: list_all_iff)
  obtain s2 where s2: "array_find (score_of_unguarded (participant_at ''away'' ps)) ss = Some s2"
    using array_find_total [of ss "score_of_unguarded (participant_at ''away'' ps)"]
          ss(2) score_of_unguarded_total [OF away]
    by (auto simp: list_all_iff)
  obtain pd where pd: "opt_find_method (opt_prop m ''periods'') is_2hg = Some pd"
    using assms(1) find_periods_total by (auto simp: well_formed_match_def)
  have st: "\<not> nullish (opt_prop m ''state'')" "opt_prop (opt_prop m ''state'') ''state'' = Str s"
    using assms(4) by (cases "opt_prop m ''state''"; simp add: state_of_def)+
  show ?thesis
    using pd st home away
    by (simp add: shape_match_unguarded_def m ps ss array_find_at_location_total s1 s2 get_prop_opt)
qed

lemma participant_at_member:
  "\<exists>p\<in>set ps. location_of p = Str loc \<Longrightarrow>
   participant_at loc ps \<in> set ps \<and> location_of (participant_at loc ps) = Str loc"
  by (induction ps) (auto simp: participant_at_def)

lemma located_nonnullish: "location_of p = Str loc \<Longrightarrow> \<not> nullish p"
  by (cases p) (auto simp: location_of_def)

lemma toUpperCase_live: "toUpperCase ''live'' = ''LIVE''"
  by code_simp

lemma is_string_Str: "is_string v \<Longrightarrow> \<exists>s. v = Str s"
  by (cases v) (auto simp: is_string_def)

lemma shape_fixture_unguarded_total:
  assumes "complete_fixture f"
  shows "\<exists>out. shape_fixture_unguarded f = Some out"
proof -
  from assms obtain ps where
    ps: "opt_prop f ''participants'' = Arr ps" "well_formed_participants ps"
    by (auto simp: complete_fixture_def well_formed_fixture_def split: jsval.splits)
  from ps(1) have f: "\<And>k. get_prop f k = Some (opt_prop f k)"
    by (cases f) auto
  have home: "\<not> nullish (participant_at ''home'' ps)" and away: "\<not> nullish (participant_at ''away'' ps)"
    using assms ps(1)
    by (simp_all add: complete_fixture_def has_participant_def participants_of_def elements_def)
  obtain s where s: "state_of f = Str s"
    using assms is_string_Str by (auto simp: complete_fixture_def)
  have st: "\<not> nullish (opt_prop f ''state'')" "opt_prop (opt_prop f ''state'') ''state'' = Str s"
    using s by (cases "opt_prop f ''state''"; simp add: state_of_def)+
  show ?thesis
    using st home away
    by (simp add: shape_fixture_unguarded_def f ps array_find_at_location_total get_prop_opt)
qed

lemma complete_match_shaped:
  assumes "complete_match m"
  shows "\<exists>out. shape_match_unguarded m = Some out"
proof -
  obtain s where "state_of m = Str s"
    using assms is_string_Str by (auto simp: complete_match_def complete_fixture_def)
  then show ?thesis
    using assms shape_match_unguarded_total [of m s]
    by (simp add: complete_match_def complete_fixture_def has_participant_def)
qed


section \<open>The live-scores route and a missing participant\<close>

lemma get_livescores_total:
  assumes "js_or (cache_get now (appCache st) ''liveScores'') (Arr []) = Arr ms"
    and "list_all well_formed_match ms"
  shows "\<exists>outs. get_livescores now st = Some \<lparr>status = 200, body = Obj [(''data'', Arr outs)]\<rparr> \<and>
           list_all2 (\<lambda>m out. shape_match m = Some out) ms outs"
proof -
  have "\<forall>m\<in>set ms. \<exists>out. shape_match m = Some out"
    using assms(2) by (auto simp: list_all_iff dest: shape_match_total)
  then obtain outs where outs: "array_map shape_match ms = Some outs"
    using array_map_total by blast
  then have "list_all2 (\<lambda>m out. shape_match m = Some out) ms outs"
    by (rule array_map_list_all2)
  then show ?thesis
    using outs by (simp add: get_livescores_def assms(1) res_json_def)
qed

lemma shape_match_absent_participant:
  assumes "shape_match m = Some out"
  shows "list_all (\<lambda>p. location_of p \<noteq> Str ''home'') (participants_of m) \<Longrightarrow>
           opt_prop out ''localteam_id'' = Undefined \<and>
           opt_prop (elements (opt_prop out ''scores'') ! 0) ''team_id'' = Undefined"
    and "list_all (\<lambda>p. location_of p \<noteq> Str ''away'') (participants_of m) \<Longrightarrow>
           opt_prop out ''visitorteam_id'' = Undefined \<and>
           opt_prop (elements (opt_prop out ''scores'') ! 1) ''team_id'' = Undefined"
  using shape_match_Some [OF assms]
  by (auto simp: participant_at_absent elements_def)

lemma get_livescores_without_home:
  "get_livescores 1 (fetchFootballLiveScores (Str ''token'') (Inr body_without_home) 0 app_init) =
     Some \<lparr>status = 200, body = Obj [(''data'', Arr [shaped_live_match, shaped_without_home])]\<rparr>"
  by code_simp

text \<open>
  C1. For every match of the cached list the shaping finds the home and the away
  participant, and a match without one of them gets undefined ids while the response
  for the whole list is still produced. The routes of server.js and of the second file
  of part_000 read \<open>localTeam.id\<close> and \<open>visitorTeam.id\<close> without the guard that the first
  file of part_000 has: after a refresh stored a list in which one match has no home
  participant, they throw, and no response is produced for any match of the list.
\<close>

theorem server_livescores_without_home:
  "server_get_livescores
     (server_fetchFootballLiveScores (Str ''token'') (Inr body_without_home) server_init) = None \<and>
   get_livescores_unguarded 1
     (fetchFootballLiveScores (Str ''token'') (Inr body_without_home) 0 app_init) = None"
  by code_simp


section \<open>The worked examples\<close>

lemma ns_fixture_shaped:
  "shape_fixture ns_fixture = Some shaped_ns_fixture \<and>
   shape_fixture_unguarded ns_fixture = Some shaped_ns_fixture"
  by code_simp

lemma live_match_evaluated:
  "shape_match live_match = Some shaped_live_match \<and>
   shape_match_unguarded live_match = Some shaped_live_match \<and>
   shape_match away_first_match = Some shaped_away_first \<and>
   shape_match_unguarded away_first_match = Some shaped_away_first"
  by code_simp

text \<open>
  C6. Every match whose participants contain a home entry with id 10 and an away entry
  with id 20 (in any order, among other participants), whose scores are 2 goals for
  participant 10 and 1 goal for participant 20, and whose state is live, is shaped,
  with and without optional chaining, to a record with the status LIVE, live true and
  the score rows of 10 with 2 and of 20 with 1. The other fields of the match are
  free; the periods, which the shaping searches, are period entries or absent.
\<close>

theorem live_match_shaped:
  assumes "opt_prop m ''participants'' = Arr ps" and "well_formed_participants ps"
    and "\<exists>p\<in>set ps. location_of p = Str ''home''"
    and "\<forall>p\<in>set ps. location_of p = Str ''home'' \<longrightarrow> opt_prop p ''id'' = Num 10"
    and "\<exists>p\<in>set ps. location_of p = Str ''away''"
    and "\<forall>p\<in>set ps. location_of p = Str ''away'' \<longrightarrow> opt_prop p ''id'' = Num 20"
    and "opt_prop m ''scores'' = scores_2_1"
    and "state_of m = Str ''live''"
    and "entries_or_absent (opt_prop m ''periods'')"
  shows "\<exists>out. shape_match m = Some out \<and> shape_match_unguarded m = Some out \<and>
           opt_prop out ''status'' = Str ''LIVE'' \<and>
           opt_prop out ''live'' = Bool True \<and>
           opt_prop out ''scores'' =
             Arr [Obj [(''team_id'', Num 10), (''score'', Num 2)],
                  Obj [(''team_id'', Num 20), (''score'', Num 1)]]"
proof -
  from assms(1) have m: "\<And>k. get_prop m k = Some (opt_prop m k)"
    by (cases m) auto
  have home: "opt_prop (participant_at ''home'' ps) ''id'' = Num 10"
    "\<not> nullish (participant_at ''home'' ps)"
    using participant_at_member [OF assms(3)] assms(4) located_nonnullish by blast+
  have away: "opt_prop (participant_at ''away'' ps) ''id'' = Num 20"
    "\<not> nullish (participant_at ''away'' ps)"
    using participant_at_member [OF assms(5)] assms(6) located_nonnullish by blast+
  obtain pd where pd: "opt_find_method (opt_prop m ''periods'') is_2hg = Some pd"
    using assms(9) find_periods_total by blast
  have st: "\<not> nullish (opt_prop m ''state'')" "opt_prop (opt_prop m ''state'') ''state'' = Str ''live''"
    using assms(8) by (cases "opt_prop m ''state''"; simp add: state_of_def)+
  have guarded: "shape_match m = Some (Obj [
       (''id'', opt_prop m ''id''),
       (''league_id'', opt_prop m ''league_id''),
       (''round'', js_or (opt_prop (opt_prop m ''round'') ''name'') (Str ''N/A'')),
       (''localteam_id'', Num 10),
       (''visitorteam_id'', Num 20),
       (''starting_at'', opt_prop m ''starting_at''),
       (''status'', Str ''LIVE''),
       (''minute'', opt_prop pd ''minutes''),
       (''live'', Bool True),
       (''scores'', Arr [Obj [(''team_id'', Num 10), (''score'', Num 2)],
                         Obj [(''team_id'', Num 20), (''score'', Num 1)]]),
       (''participants'', Arr ps)])"
    using pd st home away
    by (simp add: shape_match_def m assms(1,7) array_find_at_location_total [OF assms(2)]
          scores_2_1_def score_of_def opt_toUpperCase_method_def toUpperCase_live js_or_def)
  have unguarded: "shape_match_unguarded m = Some (Obj [
       (''id'', opt_prop m ''id''),
       (''league_id'', opt_prop m ''league_id''),
       (''round'', js_or (opt_prop (opt_prop m ''round'') ''name'') (Str ''N/A'')),
       (''localteam_id'', Num 10),
       (''visitorteam_id'', Num 20),
       (''starting_at'', opt_prop m ''starting_at''),
       (''status'', Str ''LIVE''),
       (''minute'', opt_prop pd ''minutes''),
       (''live'', Bool True),
       (''scores'', Arr [Obj [(''team_id'', Num 10), (''score'', Num 2)],
                         Obj [(''team_id'', Num 20), (''score'', Num 1)]]),
       (''participants'', Arr ps)])"
    using pd st home away
    by (simp add: shape_match_unguarded_def m assms(1,7) array_find_at_location_total [OF assms(2)]
          scores_2_1_def score_of_unguarded_def get_prop_opt toUpperCase_live js_or_def)
  show ?thesis
    using guarded unguarded by simp
qed

theorem live_match_shaped_witness:
  "map_option (\<lambda>out. (opt_prop out ''status'', opt_prop out ''live'', opt_prop out ''scores''))
     (shape_match away_first_match) =
     Some (Str ''LIVE'', Bool True,
           Arr [Obj [(''team_id'', Num 10), (''score'', Num 2)],
                Obj [(''team_id'', Num 20), (''score'', Num 1)]]) \<and>
   map_option (\<lambda>out. (opt_prop out ''status'', opt_prop out ''live'', opt_prop out ''scores''))
     (shape_match_unguarded away_first_match) =
     Some (Str ''LIVE'', Bool True,
           Arr [Obj [(''team_id'', Num 10), (''score'', Num 2)],
                Obj [(''team_id'', Num 20), (''score'', Num 1)]]) \<and>
   map_option (\<lambda>out. (opt_prop out ''status'', opt_prop out ''live'', opt_prop out ''scores''))
     (shape_match live_match) =
     Some (Str ''LIVE'', Bool True,
           Arr [Obj [(''team_id'', Num 10), (''score'', Num 2)],
                Obj [(''team_id'', Num 20), (''score'', Num 1)]]) \<and>
   map_option (\<lambda>out. (opt_prop out ''status'', opt_prop out ''live'', opt_prop out ''scores''))
     (shape_match_unguarded live_match) =
     Some (Str ''LIVE'', Bool True,
           Arr [Obj [(''team_id'', Num 10), (''score'', Num 2)],
                Obj [(''team_id'', Num 20), (''score'', Num 1)]])"
proof -
  let ?ps = "[away_20, Obj [(''id'', Num 30), (''meta'', Obj [])], home_10]"
  have a: "opt_prop away_first_match ''participants'' = Arr ?ps"
    "well_formed_participants ?ps"
    "\<exists>p\<in>set ?ps. location_of p = Str ''home''"
    "\<forall>p\<in>set ?ps. location_of p = Str ''home'' \<longrightarrow> opt_prop p ''id'' = Num 10"
    "\<exists>p\<in>set ?ps. location_of p = Str ''away''"
    "\<forall>p\<in>set ?ps. location_of p = Str ''away'' \<longrightarrow> opt_prop p ''id'' = Num 20"
    "opt_prop away_first_match ''scores'' = scores_2_1"
    "state_of away_first_match = Str ''live''"
    "entries_or_absent (opt_prop away_first_match ''periods'')"
    by code_simp+
  let ?qs = "[home_10, away_20]"
  have b: "opt_prop live_match ''participants'' = Arr ?qs"
    "well_formed_participants ?qs"
    "\<exists>p\<in>set ?qs. location_of p = Str ''home''"
    "\<forall>p\<in>set ?qs. location_of p = Str ''home'' \<longrightarrow> opt_prop p ''id'' = Num 10"
    "\<exists>p\<in>set ?qs. location_of p = Str ''away''"
    "\<forall>p\<in>set ?qs. location_of p = Str ''away'' \<longrightarrow> opt_prop p ''id'' = Num 20"
    "opt_prop live_match ''scores'' = scores_2_1"
    "state_of live_match = Str ''live''"
    "entries_or_absent (opt_prop live_match ''periods'')"
    by code_simp+
  from live_match_shaped [OF a] live_match_shaped [OF b] show ?thesis
    by auto
qed


section \<open>Expiry in the cache store\<close>

lemma stdTTL_900: "stdTTL = 900"
  by (simp add: stdTTL_def)

lemma cache_get_set:
  "cache_get now (cache_set t0 key v store) key = (if now - t0 < 900 then v else Undefined)"
  by (simp add: cache_get_def cache_set_def stdTTL_900)

lemma cache_get_set_other:
  "key' \<noteq> key \<Longrightarrow> cache_get now (cache_set t0 key v store) key' = cache_get now store key'"
  by (simp add: cache_get_def cache_set_def)

lemma cache_get_sweep:
  "t \<le> now \<Longrightarrow> cache_get now (cache_sweep t store) key = cache_get now store key"
  by (auto simp: cache_get_def cache_sweep_def split: option.splits)

lemma cache_get_sweeps:
  "\<forall>t\<in>set ts. t \<le> now \<Longrightarrow> cache_get now (cache_sweeps ts store) key = cache_get now store key"
  by (induction ts arbitrary: store) (simp_all add: cache_get_sweep)

lemma cache_get_empty: "cache_get now Map.empty key = Undefined"
  by (simp add: cache_get_def)

lemma cache_sweep_empty: "cache_sweep t Map.empty = Map.empty"
  by (simp add: cache_sweep_def)

text \<open>
  C2. For every key, \<open>get\<close> returns the value of the last \<open>set\<close> while less than the
  900 seconds of the configured ttl have elapsed since it, and is absent from then on,
  whether or not sweeps have run in between. The result is a value in either case:
  \<open>get\<close> has no error.
\<close>

theorem cache_get_ttl:
  assumes "\<forall>t\<in>set sweeps. t \<le> now"
  shows "cache_get now (cache_sweeps sweeps (cache_set t0 key v store)) key =
           (if now - t0 < 900 then v else Undefined)"
  using assms by (simp add: cache_get_sweeps cache_get_set)

theorem cache_get_ttl_witness:
  "cache_get 899 (cache_sweeps [120, 240] (cache_set 0 ''teams'' (Arr [Num 1]) Map.empty)) ''teams''
     = Arr [Num 1] \<and>
   cache_get 900 (cache_sweeps [120, 240] (cache_set 0 ''teams'' (Arr [Num 1]) Map.empty)) ''teams''
     = Undefined"
  using cache_get_ttl [of "[120, 240]" 899 0 "''teams''" "Arr [Num 1]" Map.empty]
        cache_get_ttl [of "[120, 240]" 900 0 "''teams''" "Arr [Num 1]" Map.empty]
  by simp


section \<open>What a refresh task writes\<close>

lemma io_simps:
  "console (console_log t st) = console st @ [ConsoleLog t]"
  "console (console_warn t st) = console st @ [ConsoleWarn t]"
  "console (console_error t e st) = console st @ [ConsoleError t (error_message e)]"
  "console (axios_get path params st) = console st"
  "requests (console_log t st) = requests st"
  "requests (console_warn t st) = requests st"
  "requests (console_error t e st) = requests st"
  "requests (axios_get path params st) = requests st @ [(path, params)]"
  by (simp_all add: console_log_def console_warn_def console_error_def axios_get_def)

lemma io_appCache:
  "appCache (console_log t st) = appCache st"
  "appCache (console_warn t st) = appCache st"
  "appCache (console_error t e st) = appCache st"
  "appCache (axios_get path params st) = appCache st"
  by (simp_all add: console_log_def console_warn_def console_error_def axios_get_def)

lemma io_server_cache:
  "server_cache t' (console_log t sst) = server_cache t' sst"
  "server_cache t' (console_warn t sst) = server_cache t' sst"
  "server_cache t' (console_error t e sst) = server_cache t' sst"
  "server_cache t' (axios_get path params sst) = server_cache t' sst"
  by (cases t'; simp add: console_log_def console_warn_def console_error_def axios_get_def)+

lemmas refresh_defs =
  fetchFootballLeagues_def fetchFootballTeams_def
  fetchFootballLiveScores_def fetchFootballFixtures_def

lemmas server_refresh_defs =
  server_fetchFootballLeagues_def server_fetchFootballTeams_def
  server_fetchFootballLiveScores_def server_fetchFootballFixtures_def

text \<open>
  C5. When the request of a refresh task is rejected, the store after the task is the
  store before it, so every key reads as before; in server.js each of the four cache
  variables keeps its value.
\<close>

theorem failed_fetch_keeps_cache:
  "appCache (refresh t API_TOKEN (Inl err) now st) = appCache st \<and>
   cache_get now' (appCache (refresh t API_TOKEN (Inl err) now st)) key =
     cache_get now' (appCache st) key \<and>
   server_cache t' (server_refresh t API_TOKEN (Inl err) sst) = server_cache t' sst"
proof -
  have a: "appCache (refresh t API_TOKEN (Inl err) now st) = appCache st"
    by (cases t) (simp_all add: refresh_defs Let_def io_appCache)
  have b: "server_cache t' (server_refresh t API_TOKEN (Inl err) sst) = server_cache t' sst"
    by (cases t) (simp_all add: server_refresh_defs Let_def io_server_cache)
  show ?thesis using a b by simp
qed

lemma thrown_in_task_keeps_cache:
  "summaries data = None \<Longrightarrow> t = Leagues \<or> t = Teams \<Longrightarrow>
     appCache (refresh t API_TOKEN (Inr data) now st) = appCache st \<and>
     server_cache t' (server_refresh t API_TOKEN (Inr data) sst) = server_cache t' sst"
  "data_or_empty data = None \<Longrightarrow> t = LiveScores \<or> t = Fixtures \<Longrightarrow>
     appCache (refresh t API_TOKEN (Inr data) now st) = appCache st \<and>
     server_cache t' (server_refresh t API_TOKEN (Inr data) sst) = server_cache t' sst"
  by (auto simp: refresh_defs server_refresh_defs Let_def io_appCache io_server_cache)


lemma summaries_without_data: "get_prop data ''data'' = Some Undefined \<Longrightarrow> summaries data = None"
  by (simp add: summaries_def)

lemma data_or_empty_without_data:
  "get_prop data ''data'' = Some Undefined \<Longrightarrow> data_or_empty data = Some (Arr [])"
  by (simp add: data_or_empty_def js_or_def)

text \<open>
  C3, as the claim states it, fails for the live scores and the fixtures: with the live
  match in the cache, a later body without \<open>data\<close> makes the task store the empty list
  in its place and log its success.
\<close>

theorem body_without_data_overwrites:
  "cache_get 15 (appCache (fetchFootballLiveScores (Str ''token'') (Inr body_live) 0 app_init))
     ''liveScores'' = Arr [live_match] \<and>
   cache_get 15 (appCache
       (fetchFootballLiveScores (Str ''token'') (Inr body_without_data) 15
          (fetchFootballLiveScores (Str ''token'') (Inr body_live) 0 app_init)))
     ''liveScores'' = Arr [] \<and>
   console
       (fetchFootballLiveScores (Str ''token'') (Inr body_without_data) 15
          (fetchFootballLiveScores (Str ''token'') (Inr body_live) 0 app_init))
     = [ConsoleLog LiveScores, ConsoleLog LiveScores] \<and>
   footballLiveScoresCache
       (server_fetchFootballLiveScores (Str ''token'') (Inr body_live) server_init)
     = Arr [live_match] \<and>
   footballLiveScoresCache
       (server_fetchFootballLiveScores (Str ''token'') (Inr body_without_data)
          (server_fetchFootballLiveScores (Str ''token'') (Inr body_live) server_init))
     = Arr []"
  by code_simp

text \<open>
  C3, amended. When the body has no \<open>data\<close>, the leagues and the teams task log the
  failure and write nothing, so what was cached persists; the live-scores and the
  fixtures task take the missing \<open>data\<close> for the empty list, store it under their key
  and log their success.
\<close>

theorem refresh_body_without_data:
  assumes "truthy API_TOKEN" and "get_prop data ''data'' = Some Undefined"
  shows "(t = Leagues \<or> t = Teams \<longrightarrow>
            appCache (refresh t API_TOKEN (Inr data) now st) = appCache st \<and>
            console (refresh t API_TOKEN (Inr data) now st) =
              console st @ [ConsoleError t (error_message TypeError)] \<and>
            server_cache t' (server_refresh t API_TOKEN (Inr data) sst) = server_cache t' sst \<and>
            console (server_refresh t API_TOKEN (Inr data) sst) =
              console sst @ [ConsoleError t (error_message TypeError)]) \<and>
         (t = LiveScores \<or> t = Fixtures \<longrightarrow>
            appCache (refresh t API_TOKEN (Inr data) now st) =
              cache_set now (cache_key t) (Arr []) (appCache st) \<and>
            console (refresh t API_TOKEN (Inr data) now st) = console st @ [ConsoleLog t] \<and>
            server_cache t (server_refresh t API_TOKEN (Inr data) sst) = Arr [] \<and>
            console (server_refresh t API_TOKEN (Inr data) sst) = console sst @ [ConsoleLog t])"
  using assms
  by (cases t; cases t')
     (simp_all add: refresh_defs server_refresh_defs Let_def summaries_without_data
        data_or_empty_without_data io_simps io_appCache io_server_cache
        console_log_def console_error_def axios_get_def)

theorem refresh_body_without_data_witness:
  "appCache (refresh Teams (Str ''token'') (Inr body_without_data) 15
              (refresh Teams (Str ''token'') (Inr (Obj [(''data'', Arr [home_10])])) 0 app_init)) =
     appCache (refresh Teams (Str ''token'') (Inr (Obj [(''data'', Arr [home_10])])) 0 app_init) \<and>
   appCache (refresh Fixtures (Str ''token'') (Inr body_without_data) 15 app_init) =
     cache_set 15 ''fixtures'' (Arr []) Map.empty \<and>
   console (refresh Fixtures (Str ''token'') (Inr body_without_data) 15 app_init) =
     [ConsoleLog Fixtures]"
proof -
  have tok: "truthy (Str ''token'')"
    by simp
  have nodata: "get_prop body_without_data ''data'' = Some Undefined"
    by (simp add: body_without_data_def)
  show ?thesis
    using refresh_body_without_data [OF tok nodata, of Teams 15
            "refresh Teams (Str ''token'') (Inr (Obj [(''data'', Arr [home_10])])) 0 app_init"]
          refresh_body_without_data [OF tok nodata, of Fixtures 15 app_init]
    by (simp add: app_init_def)
qed


section \<open>Without a token\<close>

lemma refresh_no_token:
  "\<not> truthy API_TOKEN \<Longrightarrow> refresh t API_TOKEN reply now st = st"
  by (cases t) (simp_all add: refresh_defs)

lemma run_no_token:
  "\<not> truthy API_TOKEN \<Longrightarrow> appCache st = Map.empty \<Longrightarrow>
   appCache (run API_TOKEN es st) = Map.empty \<and> requests (run API_TOKEN es st) = requests st"
proof (induction es arbitrary: st)
  case Nil
  then show ?case by simp
next
  case (Cons e es)
  then show ?case
    by (cases e) (simp_all add: refresh_no_token cache_sweep_empty)
qed

lemma server_refresh_no_token:
  "\<not> truthy API_TOKEN \<Longrightarrow>
   requests (server_refresh t API_TOKEN reply sst) = requests sst \<and>
   server_cache t' (server_refresh t API_TOKEN reply sst) = server_cache t' sst"
  by (cases t) (simp_all add: server_refresh_defs io_simps io_server_cache)

lemma server_run_no_token:
  "\<not> truthy API_TOKEN \<Longrightarrow>
   requests (server_run API_TOKEN es sst) = requests sst \<and>
   server_cache t' (server_run API_TOKEN es sst) = server_cache t' sst"
proof (induction es arbitrary: sst)
  case Nil
  then show ?case by simp
next
  case (Cons e es)
  then show ?case
    by (cases e) (simp add: server_refresh_no_token)
qed

lemma routes_of_empty_store:
  assumes "appCache st = Map.empty"
  shows "get_leagues now st = Some \<lparr>status = 200, body = Obj [(''data'', Arr [])]\<rparr>"
    and "get_teams now st = Some \<lparr>status = 200, body = Obj [(''data'', Arr [])]\<rparr>"
    and "get_livescores now st = Some \<lparr>status = 200, body = Obj [(''data'', Arr [])]\<rparr>"
    and "get_fixtures now st = Some \<lparr>status = 200, body = Obj [(''data'', Arr [])]\<rparr>"
    and "get_livescores_unguarded now st = Some \<lparr>status = 200, body = Obj [(''data'', Arr [])]\<rparr>"
    and "get_fixtures_unguarded now st = Some \<lparr>status = 200, body = Obj [(''data'', Arr [])]\<rparr>"
  by (simp_all add: get_leagues_def get_teams_def get_livescores_def get_fixtures_def
        get_livescores_unguarded_def get_fixtures_unguarded_def
        assms cache_get_empty js_or_def res_json_def)

lemma server_routes_of_empty_caches:
  assumes "\<And>t'. server_cache t' sst = Arr []"
  shows "server_get_leagues sst = Some \<lparr>status = 200, body = Obj [(''data'', Arr [])]\<rparr>"
    and "server_get_teams sst = Some \<lparr>status = 200, body = Obj [(''data'', Arr [])]\<rparr>"
    and "server_get_livescores sst = Some \<lparr>status = 200, body = Obj [(''data'', Arr [])]\<rparr>"
    and "server_get_fixtures sst = Some \<lparr>status = 200, body = Obj [(''data'', Arr [])]\<rparr>"
  using assms [of Leagues] assms [of Teams] assms [of LiveScores] assms [of Fixtures]
  by (simp_all add: server_get_leagues_def server_get_teams_def server_get_livescores_def
        server_get_fixtures_def res_json_def)

text \<open>
  C8. Without a token (undefined or the empty string) a refresh task sends no request
  and writes nothing, and after any run of the process from its start every data route
  answers with status 200 and an empty list.
\<close>

theorem no_token:
  assumes "\<not> truthy API_TOKEN"
  shows "requests (refresh t API_TOKEN reply now st) = requests st \<and>
         appCache (refresh t API_TOKEN reply now st) = appCache st \<and>
         requests (server_refresh t API_TOKEN reply sst) = requests sst \<and>
         server_cache t' (server_refresh t API_TOKEN reply sst) = server_cache t' sst \<and>
         requests (run API_TOKEN es app_init) = [] \<and>
         get_leagues now' (run API_TOKEN es app_init) =
           Some \<lparr>status = 200, body = Obj [(''data'', Arr [])]\<rparr> \<and>
         get_teams now' (run API_TOKEN es app_init) =
           Some \<lparr>status = 200, body = Obj [(''data'', Arr [])]\<rparr> \<and>
         get_livescores now' (run API_TOKEN es app_init) =
           Some \<lparr>status = 200, body = Obj [(''data'', Arr [])]\<rparr> \<and>
         get_fixtures now' (run API_TOKEN es app_init) =
           Some \<lparr>status = 200, body = Obj [(''data'', Arr [])]\<rparr> \<and>
         get_livescores_unguarded now' (run API_TOKEN es app_init) =
           Some \<lparr>status = 200, body = Obj [(''data'', Arr [])]\<rparr> \<and>
         get_fixtures_unguarded now' (run API_TOKEN es app_init) =
           Some \<lparr>status = 200, body = Obj [(''data'', Arr [])]\<rparr> \<and>
         requests (server_run API_TOKEN ses server_init) = [] \<and>
         server_get_leagues (server_run API_TOKEN ses server_init) =
           Some \<lparr>status = 200, body = Obj [(''data'', Arr [])]\<rparr> \<and>
         server_get_teams (server_run API_TOKEN ses server_init) =
           Some \<lparr>status = 200, body = Obj [(''data'', Arr [])]\<rparr> \<and>
         server_get_livescores (server_run API_TOKEN ses server_init) =
           Some \<lparr>status = 200, body = Obj [(''data'', Arr [])]\<rparr> \<and>
         server_get_fixtures (server_run API_TOKEN ses server_init) =
           Some \<lparr>status = 200, body = Obj [(''data'', Arr [])]\<rparr>"
proof -
  have init: "appCache app_init = Map.empty" "requests app_init = []"
    by (simp_all add: app_init_def)
  have store: "appCache (run API_TOKEN es app_init) = Map.empty"
    and reqs: "requests (run API_TOKEN es app_init) = []"
    using run_no_token [OF assms init(1), of es] init(2) by simp_all
  have sinit: "server_cache t'' server_init = Arr []" "requests server_init = []" for t''
    by (cases t''; simp add: server_init_def)+
  have scache: "server_cache t'' (server_run API_TOKEN ses server_init) = Arr []" for t''
    using server_run_no_token [OF assms, of ses server_init t''] sinit(1) by simp
  have sreqs: "requests (server_run API_TOKEN ses server_init) = []"
    using server_run_no_token [OF assms, of ses server_init] sinit(2) by simp
  show ?thesis
    using server_refresh_no_token [OF assms, of t reply sst t']
    by (simp add: refresh_no_token [OF assms] reqs sreqs
          routes_of_empty_store [OF store] server_routes_of_empty_caches [OF scache])
qed

theorem no_token_witness:
  "requests (refresh Teams Undefined (Inr body_live) 0 app_init) = [] \<and>
   appCache (refresh Teams Undefined (Inr body_live) 0 app_init) = Map.empty \<and>
   get_teams 1 (run Undefined [Refresh Leagues (Inr body_live) 0, Refresh Teams (Inr body_live) 0,
                               Sweep 120] app_init) =
     Some \<lparr>status = 200, body = Obj [(''data'', Arr [])]\<rparr> \<and>
   server_get_teams (server_run (Str []) [(Teams, Inr body_live)] server_init) =
     Some \<lparr>status = 200, body = Obj [(''data'', Arr [])]\<rparr>"
proof -
  have u: "\<not> truthy Undefined" and e: "\<not> truthy (Str [])"
    by simp_all
  show ?thesis
    using no_token [OF u, where t = Teams and reply = "Inr body_live" and now = 0
            and st = app_init and now' = 1
            and es = "[Refresh Leagues (Inr body_live) 0, Refresh Teams (Inr body_live) 0, Sweep 120]"]
          no_token [OF e, where ses = "[(Teams, Inr body_live)]"]
    by (simp add: app_init_def)
qed


section \<open>The fields of a shaped record\<close>

lemma status_guarded:
  assumes "opt_toUpperCase_method v = Some upper"
  shows "v = Str s \<Longrightarrow> s \<noteq> [] \<Longrightarrow> js_or upper (Str ''N/A'') = Str (toUpperCase s)"
    and "nullish v \<or> v = Str [] \<Longrightarrow> js_or upper (Str ''N/A'') = Str ''N/A''"
  using assms
  by (auto simp: opt_toUpperCase_method_def js_or_def toUpperCase_Nil toUpperCase_def
           split: if_splits)

text \<open>
  C4, as the claim states it, fails on the empty string: \<open>state.state\<close> is present, its
  upper-cased value is the empty string, and the status is N/A.
\<close>

theorem empty_state_status:
  "opt_prop (opt_prop match_empty_state ''state'') ''state'' = Str [] \<and>
   toUpperCase [] = [] \<and>
   shape_match match_empty_state = Some shaped_empty_state \<and>
   opt_prop shaped_empty_state ''status'' = Str ''N/A''"
  by code_simp

text \<open>
  C4, amended. A well-formed match is shaped, and its status is the upper-cased
  \<open>state.state\<close> when that is a string other than the empty one, with and without
  optional chaining; with optional chaining it is N/A when \<open>state\<close> or \<open>state.state\<close> is
  absent (undefined or null) and when \<open>state.state\<close> is the empty string.
\<close>

theorem status_of_state:
  assumes "well_formed_match m"
  shows "(\<exists>out. shape_match m = Some out) \<and>
         (\<forall>out s. (shape_match m = Some out \<or> shape_match_unguarded m = Some out) \<and>
              state_of m = Str s \<and> s \<noteq> [] \<longrightarrow>
            opt_prop out ''status'' = Str (toUpperCase s)) \<and>
         (\<forall>out. shape_match m = Some out \<and> (nullish (state_of m) \<or> state_of m = Str []) \<longrightarrow>
            opt_prop out ''status'' = Str ''N/A'')"
proof (intro conjI allI impI)
  show "\<exists>out. shape_match m = Some out"
    using assms by (rule shape_match_total)
next
  fix out s
  assume a: "(shape_match m = Some out \<or> shape_match_unguarded m = Some out) \<and>
             state_of m = Str s \<and> s \<noteq> []"
  then consider "shape_match m = Some out" | "shape_match_unguarded m = Some out"
    by blast
  then show "opt_prop out ''status'' = Str (toUpperCase s)"
  proof cases
    case 1
    then obtain upper where "opt_toUpperCase_method (state_of m) = Some upper"
      and "opt_prop out ''status'' = js_or upper (Str ''N/A'')"
      using shape_match_Some [OF 1] by auto
    then show ?thesis
      using a status_guarded(1) by simp
  next
    case 2
    then show ?thesis
      using a shape_match_unguarded_Some [OF 2] by auto
  qed
next
  fix out
  assume a: "shape_match m = Some out \<and> (nullish (state_of m) \<or> state_of m = Str [])"
  then obtain upper where "opt_toUpperCase_method (state_of m) = Some upper"
    and "opt_prop out ''status'' = js_or upper (Str ''N/A'')"
    using shape_match_Some [of m out] by auto
  then show "opt_prop out ''status'' = Str ''N/A''"
    using a status_guarded(2) by simp
qed

theorem status_of_state_witness:
  "map_option (\<lambda>out. opt_prop out ''status'') (shape_match live_match) = Some (Str ''LIVE'') \<and>
   map_option (\<lambda>out. opt_prop out ''status'') (shape_match_unguarded live_match) = Some (Str ''LIVE'') \<and>
   map_option (\<lambda>out. opt_prop out ''status'') (shape_match match_without_state) = Some (Str ''N/A'')"
proof -
  have wf: "well_formed_match live_match" "well_formed_match match_without_state"
    by code_simp+
  have st: "state_of live_match = Str ''live''" "nullish (state_of match_without_state)"
    by code_simp+
  have up: "toUpperCase ''live'' = ''LIVE''"
    by code_simp
  have un: "shape_match_unguarded live_match = Some shaped_live_match"
    by code_simp
  from status_of_state [OF wf(1)] st(1) up un
  have "map_option (\<lambda>out. opt_prop out ''status'') (shape_match live_match) = Some (Str ''LIVE'')"
    and "opt_prop shaped_live_match ''status'' = Str ''LIVE''"
    by auto
  moreover from status_of_state [OF wf(2)] st(2)
  have "map_option (\<lambda>out. opt_prop out ''status'') (shape_match match_without_state) = Some (Str ''N/A'')"
    by auto
  ultimately show ?thesis
    using un by simp
qed

text \<open>
  C7. A well-formed fixture is shaped by the code with optional chaining, and by the
  code without it when both participants are in the list and \<open>state.state\<close> is a
  string. Every shaped fixture has \<open>live\<close> false, the two rows of the ids of its home
  and its away participant with 0 goals each, and the round as the provider gave it.
\<close>

theorem fixture_shaped:
  assumes "well_formed_fixture f"
  shows "(\<exists>out. shape_fixture f = Some out) \<and>
         (has_participant ''home'' f \<and> has_participant ''away'' f \<and> is_string (state_of f) \<longrightarrow>
            (\<exists>out. shape_fixture_unguarded f = Some out)) \<and>
         (\<forall>out. shape_fixture f = Some out \<or> shape_fixture_unguarded f = Some out \<longrightarrow>
            opt_prop out ''live'' = Bool False \<and>
            opt_prop out ''scores'' =
              Arr [Obj [(''participant_id'', opt_prop (participant_at ''home'' (participants_of f)) ''id''),
                        (''goals'', Num 0)],
                   Obj [(''participant_id'', opt_prop (participant_at ''away'' (participants_of f)) ''id''),
                        (''goals'', Num 0)]] \<and>
            opt_prop out ''round'' = opt_prop f ''round'')"
proof -
  have total: "\<exists>out. shape_fixture f = Some out"
    using assms by (rule shape_fixture_total)
  have total_unguarded: "\<exists>out. shape_fixture_unguarded f = Some out"
    if "has_participant ''home'' f \<and> has_participant ''away'' f \<and> is_string (state_of f)"
    using that assms by (intro shape_fixture_unguarded_total) (simp add: complete_fixture_def)
  have fields: "opt_prop out ''live'' = Bool False \<and>
            opt_prop out ''scores'' =
              Arr [Obj [(''participant_id'', opt_prop (participant_at ''home'' (participants_of f)) ''id''),
                        (''goals'', Num 0)],
                   Obj [(''participant_id'', opt_prop (participant_at ''away'' (participants_of f)) ''id''),
                        (''goals'', Num 0)]] \<and>
            opt_prop out ''round'' = opt_prop f ''round''"
    if "shape_fixture f = Some out \<or> shape_fixture_unguarded f = Some out" for out
  proof -
    from that consider "shape_fixture f = Some out" | "shape_fixture_unguarded f = Some out"
      by blast
    then show ?thesis
    proof cases
      case 1
      show ?thesis using shape_fixture_Some [OF 1] by auto
    next
      case 2
      show ?thesis using shape_fixture_unguarded_Some [OF 2] by auto
    qed
  qed
  show ?thesis
    using total total_unguarded fields by blast
qed

theorem fixture_shaped_witness:
  "map_option (\<lambda>out. (opt_prop out ''live'', opt_prop out ''scores'', opt_prop out ''round''))
     (shape_fixture away_first_fixture) =
     Some (Bool False,
           Arr [Obj [(''participant_id'', Num 10), (''goals'', Num 0)],
                Obj [(''participant_id'', Num 20), (''goals'', Num 0)]],
           Obj [(''name'', Str ''5'')]) \<and>
   map_option (\<lambda>out. (opt_prop out ''live'', opt_prop out ''scores'', opt_prop out ''round''))
     (shape_fixture_unguarded away_first_fixture) =
     Some (Bool False,
           Arr [Obj [(''participant_id'', Num 10), (''goals'', Num 0)],
                Obj [(''participant_id'', Num 20), (''goals'', Num 0)]],
           Obj [(''name'', Str ''5'')])"
proof -
  have wf: "well_formed_fixture away_first_fixture"
    by code_simp
  have both: "has_participant ''home'' away_first_fixture"
    "has_participant ''away'' away_first_fixture"
    "is_string (state_of away_first_fixture)"
    by code_simp+
  have ids: "opt_prop (participant_at ''home'' (participants_of away_first_fixture)) ''id'' = Num 10"
    "opt_prop (participant_at ''away'' (participants_of away_first_fixture)) ''id'' = Num 20"
    "opt_prop away_first_fixture ''round'' = Obj [(''name'', Str ''5'')]"
    by code_simp+
  from fixture_shaped [OF wf] both ids show ?thesis
    by auto
qed


text \<open>
  C9, as the claim states it, fails on the empty name: the round has its \<open>name\<close>, the
  empty string, and the round of the shaped match is N/A.
\<close>

theorem empty_round_name:
  "opt_prop (opt_prop match_empty_round ''round'') ''name'' = Str [] \<and>
   shape_match match_empty_round = Some shaped_empty_round \<and>
   shape_match_unguarded match_empty_round = Some shaped_empty_round \<and>
   opt_prop shaped_empty_round ''round'' = Str ''N/A''"
  by code_simp

text \<open>
  C9, amended. A well-formed match is shaped, and in every shaped match the round is
  the \<open>name\<close> of the round when that is truthy (for a string: not empty) and N/A
  otherwise, and the minute is the \<open>minutes\<close> of the first period of type 2hg, undefined
  when no period has that type.
\<close>

theorem round_and_minute:
  assumes "well_formed_match m"
  shows "(\<exists>out. shape_match m = Some out) \<and>
         (\<forall>out. shape_match m = Some out \<or> shape_match_unguarded m = Some out \<longrightarrow>
            opt_prop out ''round'' =
              (if truthy (opt_prop (opt_prop m ''round'') ''name'')
               then opt_prop (opt_prop m ''round'') ''name'' else Str ''N/A'') \<and>
            opt_prop out ''minute'' = opt_prop (period_2hg m) ''minutes'' \<and>
            (list_all (\<lambda>p. opt_prop p ''type'' \<noteq> Str ''2hg'') (elements (opt_prop m ''periods'')) \<longrightarrow>
               opt_prop out ''minute'' = Undefined))"
proof -
  have total: "\<exists>out. shape_match m = Some out"
    using assms by (rule shape_match_total)
  have fields: "opt_prop out ''round'' =
              (if truthy (opt_prop (opt_prop m ''round'') ''name'')
               then opt_prop (opt_prop m ''round'') ''name'' else Str ''N/A'') \<and>
            opt_prop out ''minute'' = opt_prop (period_2hg m) ''minutes'' \<and>
            (list_all (\<lambda>p. opt_prop p ''type'' \<noteq> Str ''2hg'') (elements (opt_prop m ''periods'')) \<longrightarrow>
               opt_prop out ''minute'' = Undefined)"
    if "shape_match m = Some out \<or> shape_match_unguarded m = Some out" for out
  proof -
    from that consider "shape_match m = Some out" | "shape_match_unguarded m = Some out"
      by blast
    then have "opt_prop out ''round'' = js_or (opt_prop (opt_prop m ''round'') ''name'') (Str ''N/A'') \<and>
      opt_prop out ''minute'' = opt_prop (period_2hg m) ''minutes''"
    proof cases
      case 1
      show ?thesis using shape_match_Some [OF 1] by auto
    next
      case 2
      show ?thesis using shape_match_unguarded_Some [OF 2] by auto
    qed
    then show ?thesis
      by (auto simp: js_or_def period_2hg_absent)
  qed
  show ?thesis
    using total fields by blast
qed

theorem round_and_minute_witness:
  "map_option (\<lambda>out. (opt_prop out ''round'', opt_prop out ''minute'')) (shape_match second_half_match) =
     Some (Str ''5'', Num 63) \<and>
   map_option (\<lambda>out. (opt_prop out ''round'', opt_prop out ''minute'')) (shape_match live_match) =
     Some (Str ''N/A'', Undefined)"
proof -
  have wf: "well_formed_match second_half_match" "well_formed_match live_match"
    by code_simp+
  have a: "opt_prop (opt_prop second_half_match ''round'') ''name'' = Str ''5''"
    "opt_prop (period_2hg second_half_match) ''minutes'' = Num 63"
    by code_simp+
  have b: "opt_prop (opt_prop live_match ''round'') ''name'' = Undefined"
    "list_all (\<lambda>p. opt_prop p ''type'' \<noteq> Str ''2hg'') (elements (opt_prop live_match ''periods''))"
    by code_simp+
  from round_and_minute [OF wf(1)] a
  have "map_option (\<lambda>out. (opt_prop out ''round'', opt_prop out ''minute''))
          (shape_match second_half_match) = Some (Str ''5'', Num 63)"
    by auto
  moreover from round_and_minute [OF wf(2)] b
  have "map_option (\<lambda>out. (opt_prop out ''round'', opt_prop out ''minute''))
          (shape_match live_match) = Some (Str ''N/A'', Undefined)"
    by auto
  ultimately show ?thesis
    by simp
qed


section \<open>The rows of the scores, in the responses\<close>

lemma match_rows_guarded: "shape_match m = Some out \<Longrightarrow> match_rows m out"
  by (drule shape_match_Some) (auto simp: match_rows_def elements_def)

lemma match_rows_unguarded: "shape_match_unguarded m = Some out \<Longrightarrow> match_rows m out"
  by (drule shape_match_unguarded_Some) (auto simp: match_rows_def elements_def)

lemma fixture_rows_guarded: "shape_fixture f = Some out \<Longrightarrow> fixture_rows f out"
  by (drule shape_fixture_Some) (auto simp: fixture_rows_def elements_def)

lemma fixture_rows_unguarded: "shape_fixture_unguarded f = Some out \<Longrightarrow> fixture_rows f out"
  by (drule shape_fixture_unguarded_Some) (auto simp: fixture_rows_def elements_def)

lemma shaped_list:
  assumes "Option.bind (map_method v cb) (\<lambda>shapedData. Some (res_json (Obj [(''data'', shapedData)]))) = Some r"
    and "\<And>x y. cb x = Some y \<Longrightarrow> P x y"
  shows "\<exists>outs. body r = Obj [(''data'', Arr outs)] \<and> list_all2 P (elements v) outs"
proof -
  from assms(1) obtain d where d: "map_method v cb = Some d" and r: "r = res_json (Obj [(''data'', d)])"
    by (auto simp: bind_eq_Some_conv)
  from map_method_Some [OF d] obtain xs ys where
    "v = Arr xs" "d = Arr ys" "list_all2 (\<lambda>x y. cb x = Some y) xs ys"
    by blast
  then show ?thesis
    using r assms(2) by (auto simp: res_json_def elements_def elim: list_all2_mono)
qed

lemma shaped_list_total:
  assumes "v = Arr ms" and "\<forall>m\<in>set ms. \<exists>out. cb m = Some out"
    and "\<And>x y. cb x = Some y \<Longrightarrow> P x y"
  shows "\<exists>outs.
           Option.bind (map_method v cb) (\<lambda>shapedData. Some (res_json (Obj [(''data'', shapedData)]))) =
             Some \<lparr>status = 200, body = Obj [(''data'', Arr outs)]\<rparr> \<and>
           list_all2 P ms outs"
proof -
  obtain outs where outs: "array_map cb ms = Some outs"
    using assms(2) array_map_total by blast
  then have "list_all2 (\<lambda>x y. cb x = Some y) ms outs"
    by (rule array_map_list_all2)
  then have "list_all2 P ms outs"
    using assms(3) by (auto elim: list_all2_mono)
  then show ?thesis
    using outs by (simp add: assms(1) res_json_def)
qed

text \<open>
  C10. Every shaped match in a response of the live-scores route has exactly two score
  rows, the first with the id of the home participant, which is the match's
  \<open>localteam_id\<close>, the second with the id of the away participant, which is its
  \<open>visitorteam_id\<close>; every shaped fixture in a response of the fixtures route has
  exactly two rows, with the id of the home participant and then that of the away
  participant. Each of the six routes of the three files answers with such a list when
  the cached records are well formed (and, for the routes without optional chaining,
  have both participants and a state string), and whatever response a route gives has
  these rows.
\<close>

theorem scores_home_then_away:
  "(js_or (cache_get now (appCache st) ''liveScores'') (Arr []) = Arr ms \<and>
      list_all well_formed_match ms \<longrightarrow>
      (\<exists>outs. get_livescores now st = Some \<lparr>status = 200, body = Obj [(''data'', Arr outs)]\<rparr> \<and>
         list_all2 match_rows ms outs)) \<and>
   (js_or (cache_get now (appCache st) ''liveScores'') (Arr []) = Arr ms \<and>
      list_all complete_match ms \<longrightarrow>
      (\<exists>outs. get_livescores_unguarded now st =
           Some \<lparr>status = 200, body = Obj [(''data'', Arr outs)]\<rparr> \<and>
         list_all2 match_rows ms outs)) \<and>
   (footballLiveScoresCache sst = Arr ms \<and> list_all complete_match ms \<longrightarrow>
      (\<exists>outs. server_get_livescores sst =
           Some \<lparr>status = 200, body = Obj [(''data'', Arr outs)]\<rparr> \<and>
         list_all2 match_rows ms outs)) \<and>
   (js_or (cache_get now (appCache st) ''fixtures'') (Arr []) = Arr fs \<and>
      list_all well_formed_fixture fs \<longrightarrow>
      (\<exists>outs. get_fixtures now st = Some \<lparr>status = 200, body = Obj [(''data'', Arr outs)]\<rparr> \<and>
         list_all2 fixture_rows fs outs)) \<and>
   (js_or (cache_get now (appCache st) ''fixtures'') (Arr []) = Arr fs \<and>
      list_all complete_fixture fs \<longrightarrow>
      (\<exists>outs. get_fixtures_unguarded now st =
           Some \<lparr>status = 200, body = Obj [(''data'', Arr outs)]\<rparr> \<and>
         list_all2 fixture_rows fs outs)) \<and>
   (footballFixturesCache sst = Arr fs \<and> list_all complete_fixture fs \<longrightarrow>
      (\<exists>outs. server_get_fixtures sst =
           Some \<lparr>status = 200, body = Obj [(''data'', Arr outs)]\<rparr> \<and>
         list_all2 fixture_rows fs outs)) \<and>
   (get_livescores now st = Some r \<or> get_livescores_unguarded now st = Some r \<longrightarrow>
      (\<exists>outs. body r = Obj [(''data'', Arr outs)] \<and>
         list_all2 match_rows
           (elements (js_or (cache_get now (appCache st) ''liveScores'') (Arr []))) outs)) \<and>
   (server_get_livescores sst = Some r \<longrightarrow>
      (\<exists>outs. body r = Obj [(''data'', Arr outs)] \<and>
         list_all2 match_rows (elements (footballLiveScoresCache sst)) outs)) \<and>
   (get_fixtures now st = Some r \<or> get_fixtures_unguarded now st = Some r \<longrightarrow>
      (\<exists>outs. body r = Obj [(''data'', Arr outs)] \<and>
         list_all2 fixture_rows
           (elements (js_or (cache_get now (appCache st) ''fixtures'') (Arr []))) outs)) \<and>
   (server_get_fixtures sst = Some r \<longrightarrow>
      (\<exists>outs. body r = Obj [(''data'', Arr outs)] \<and>
         list_all2 fixture_rows (elements (footballFixturesCache sst)) outs))"
proof -
  have p1: "\<exists>outs. get_livescores now st = Some \<lparr>status = 200, body = Obj [(''data'', Arr outs)]\<rparr> \<and>
         list_all2 match_rows ms outs"
    if "js_or (cache_get now (appCache st) ''liveScores'') (Arr []) = Arr ms \<and>
        list_all well_formed_match ms"
    unfolding get_livescores_def using that
    by (intro shaped_list_total) (auto simp: list_all_iff dest: shape_match_total match_rows_guarded)
  have p2: "\<exists>outs. get_livescores_unguarded now st =
           Some \<lparr>status = 200, body = Obj [(''data'', Arr outs)]\<rparr> \<and>
         list_all2 match_rows ms outs"
    if "js_or (cache_get now (appCache st) ''liveScores'') (Arr []) = Arr ms \<and>
        list_all complete_match ms"
    unfolding get_livescores_unguarded_def using that
    by (intro shaped_list_total)
       (auto simp: list_all_iff dest: complete_match_shaped match_rows_unguarded)
  have p3: "\<exists>outs. server_get_livescores sst =
           Some \<lparr>status = 200, body = Obj [(''data'', Arr outs)]\<rparr> \<and>
         list_all2 match_rows ms outs"
    if "footballLiveScoresCache sst = Arr ms \<and> list_all complete_match ms"
    unfolding server_get_livescores_def using that
    by (intro shaped_list_total)
       (auto simp: list_all_iff dest: complete_match_shaped match_rows_unguarded)
  have p4: "\<exists>outs. get_fixtures now st = Some \<lparr>status = 200, body = Obj [(''data'', Arr outs)]\<rparr> \<and>
         list_all2 fixture_rows fs outs"
    if "js_or (cache_get now (appCache st) ''fixtures'') (Arr []) = Arr fs \<and>
        list_all well_formed_fixture fs"
    unfolding get_fixtures_def using that
    by (intro shaped_list_total)
       (auto simp: list_all_iff dest: shape_fixture_total fixture_rows_guarded)
  have p5: "\<exists>outs. get_fixtures_unguarded now st =
           Some \<lparr>status = 200, body = Obj [(''data'', Arr outs)]\<rparr> \<and>
         list_all2 fixture_rows fs outs"
    if "js_or (cache_get now (appCache st) ''fixtures'') (Arr []) = Arr fs \<and>
        list_all complete_fixture fs"
    unfolding get_fixtures_unguarded_def using that
    by (intro shaped_list_total)
       (auto simp: list_all_iff dest: shape_fixture_unguarded_total fixture_rows_unguarded)
  have p6: "\<exists>outs. server_get_fixtures sst =
           Some \<lparr>status = 200, body = Obj [(''data'', Arr outs)]\<rparr> \<and>
         list_all2 fixture_rows fs outs"
    if "footballFixturesCache sst = Arr fs \<and> list_all complete_fixture fs"
    unfolding server_get_fixtures_def using that
    by (intro shaped_list_total)
       (auto simp: list_all_iff dest: shape_fixture_unguarded_total fixture_rows_unguarded)
  have a: "get_livescores now st = Some r \<Longrightarrow>
      \<exists>outs. body r = Obj [(''data'', Arr outs)] \<and>
         list_all2 match_rows
           (elements (js_or (cache_get now (appCache st) ''liveScores'') (Arr []))) outs"
    unfolding get_livescores_def by (erule shaped_list) (rule match_rows_guarded)
  have b: "get_livescores_unguarded now st = Some r \<Longrightarrow>
      \<exists>outs. body r = Obj [(''data'', Arr outs)] \<and>
         list_all2 match_rows
           (elements (js_or (cache_get now (appCache st) ''liveScores'') (Arr []))) outs"
    unfolding get_livescores_unguarded_def by (erule shaped_list) (rule match_rows_unguarded)
  have c: "server_get_livescores sst = Some r \<Longrightarrow>
      \<exists>outs. body r = Obj [(''data'', Arr outs)] \<and>
         list_all2 match_rows (elements (footballLiveScoresCache sst)) outs"
    unfolding server_get_livescores_def by (erule shaped_list) (rule match_rows_unguarded)
  have d: "get_fixtures now st = Some r \<Longrightarrow>
      \<exists>outs. body r = Obj [(''data'', Arr outs)] \<and>
         list_all2 fixture_rows
           (elements (js_or (cache_get now (appCache st) ''fixtures'') (Arr []))) outs"
    unfolding get_fixtures_def by (erule shaped_list) (rule fixture_rows_guarded)
  have e: "get_fixtures_unguarded now st = Some r \<Longrightarrow>
      \<exists>outs. body r = Obj [(''data'', Arr outs)] \<and>
         list_all2 fixture_rows
           (elements (js_or (cache_get now (appCache st) ''fixtures'') (Arr []))) outs"
    unfolding get_fixtures_unguarded_def by (erule shaped_list) (rule fixture_rows_unguarded)
  have f: "server_get_fixtures sst = Some r \<Longrightarrow>
      \<exists>outs. body r = Obj [(''data'', Arr outs)] \<and>
         list_all2 fixture_rows (elements (footballFixturesCache sst)) outs"
    unfolding server_get_fixtures_def by (erule shaped_list) (rule fixture_rows_unguarded)
  show ?thesis
    using p1 p2 p3 p4 p5 p6 a b c d e f by blast
qed

theorem scores_home_then_away_witness:
  "map_option (\<lambda>r. list_all2 match_rows [live_match, match_without_home]
                      (elements (opt_prop (body r) ''data'')))
     (get_livescores 1 cached_first) = Some True \<and>
   map_option (\<lambda>r. list_all2 match_rows [live_match, away_first_match]
                      (elements (opt_prop (body r) ''data'')))
     (get_livescores_unguarded 1 cached_second) = Some True \<and>
   map_option (\<lambda>r. list_all2 match_rows [live_match, away_first_match]
                      (elements (opt_prop (body r) ''data'')))
     (server_get_livescores cached_server) = Some True \<and>
   map_option (\<lambda>r. list_all2 fixture_rows [ns_fixture, away_first_fixture]
                      (elements (opt_prop (body r) ''data'')))
     (get_fixtures 1 cached_first) = Some True \<and>
   map_option (\<lambda>r. list_all2 fixture_rows [ns_fixture, away_first_fixture]
                      (elements (opt_prop (body r) ''data'')))
     (get_fixtures_unguarded 1 cached_second) = Some True \<and>
   map_option (\<lambda>r. list_all2 fixture_rows [ns_fixture, away_first_fixture]
                      (elements (opt_prop (body r) ''data'')))
     (server_get_fixtures cached_server) = Some True"
proof -
  let ?ms1 = "[live_match, match_without_home]"
  let ?ms2 = "[live_match, away_first_match]"
  let ?fs = "[ns_fixture, away_first_fixture]"
  have cache1: "js_or (cache_get 1 (appCache cached_first) ''liveScores'') (Arr []) = Arr ?ms1"
    "js_or (cache_get 1 (appCache cached_first) ''fixtures'') (Arr []) = Arr ?fs"
    by code_simp+
  have cache2: "js_or (cache_get 1 (appCache cached_second) ''liveScores'') (Arr []) = Arr ?ms2"
    "js_or (cache_get 1 (appCache cached_second) ''fixtures'') (Arr []) = Arr ?fs"
    by code_simp+
  have cache3: "footballLiveScoresCache cached_server = Arr ?ms2"
    "footballFixturesCache cached_server = Arr ?fs"
    by code_simp+
  have wf: "list_all well_formed_match ?ms1" "list_all well_formed_fixture ?fs"
    "list_all complete_match ?ms2" "list_all complete_fixture ?fs"
    by code_simp+
  note first = scores_home_then_away
    [where now = 1 and st = cached_first and ms = ?ms1 and fs = ?fs]
  note others = scores_home_then_away
    [where now = 1 and st = cached_second and sst = cached_server and ms = ?ms2 and fs = ?fs]
  have 1: "map_option (\<lambda>r. list_all2 match_rows ?ms1 (elements (opt_prop (body r) ''data'')))
             (get_livescores 1 cached_first) = Some True"
    using first [THEN conjunct1, rule_format, OF conjI [OF cache1(1) wf(1)]]
    by (auto simp: elements_def)
  have 4: "map_option (\<lambda>r. list_all2 fixture_rows ?fs (elements (opt_prop (body r) ''data'')))
             (get_fixtures 1 cached_first) = Some True"
    using first [THEN conjunct2, THEN conjunct2, THEN conjunct2, THEN conjunct1, rule_format,
            OF conjI [OF cache1(2) wf(2)]]
    by (auto simp: elements_def)
  have 2: "map_option (\<lambda>r. list_all2 match_rows ?ms2 (elements (opt_prop (body r) ''data'')))
             (get_livescores_unguarded 1 cached_second) = Some True"
    using others [THEN conjunct2, THEN conjunct1, rule_format, OF conjI [OF cache2(1) wf(3)]]
    by (auto simp: elements_def)
  have 5: "map_option (\<lambda>r. list_all2 fixture_rows ?fs (elements (opt_prop (body r) ''data'')))
             (get_fixtures_unguarded 1 cached_second) = Some True"
    using others [THEN conjunct2, THEN conjunct2, THEN conjunct2, THEN conjunct2, THEN conjunct1,
            rule_format, OF conjI [OF cache2(2) wf(4)]]
    by (auto simp: elements_def)
  have 3: "map_option (\<lambda>r. list_all2 match_rows ?ms2 (elements (opt_prop (body r) ''data'')))
             (server_get_livescores cached_server) = Some True"
    using others [THEN conjunct2, THEN conjunct2, THEN conjunct1, rule_format,
            OF conjI [OF cache3(1) wf(3)]]
    by (auto simp: elements_def)
  have 6: "map_option (\<lambda>r. list_all2 fixture_rows ?fs (elements (opt_prop (body r) ''data'')))
             (server_get_fixtures cached_server) = Some True"
    using others [THEN conjunct2, THEN conjunct2, THEN conjunct2, THEN conjunct2, THEN conjunct2,
            THEN conjunct1, rule_format, OF conjI [OF cache3(2) wf(4)]]
    by (auto simp: elements_def)
  show ?thesis
    using 1 2 3 4 5 6 by simp
qed

end
